theory Spec2Isabelle
  imports Main "HOL-Library.Word"
begin

section \<open>Values shared by the light client codecs\<close>

text \<open>
  The light client records of go-eth2-client are decoded from and encoded to JSON by
  hand-written \<^verbatim>\<open>UnmarshalJSON\<close>/\<^verbatim>\<open>MarshalJSON\<close> methods, and fetched by the HTTP
  service, which picks a decoder from the response's content type and consensus version.
  The embedding keeps the source's structure: a Go struct is a record, a pointer is an
  option (\<open>None\<close> is nil), an \<^verbatim>\<open>error\<close> result is a value of the datatype \<open>error\<close>, and a
  method that writes its receiver takes the receiver and returns it updated.
\<close>

type_synonym byte = "8 word"

text \<open>
  A JSON text is handled as the value it parses to. Object members are kept in input order,
  repeated names included, because \<^verbatim>\<open>encoding/json\<close> processes them in that order.
\<close>

datatype json =
    JNull
  | JBool bool
  | JNumber string
  | JString string
  | JArray "json list"
  | JObject "(string \<times> json) list"

text \<open>
  \<^verbatim>\<open>spec.DataVersion\<close> and the HTTP service's \<^verbatim>\<open>ContentType\<close> are integer types declared
  outside the files at hand; the code names five versions and two content types, every
  other value of the integer type falls into the \<^verbatim>\<open>default\<close> branch of a switch.
\<close>

datatype DataVersion =
    DataVersionPhase0
  | DataVersionAltair
  | DataVersionBellatrix
  | DataVersionCapella
  | DataVersionDeneb
  | DataVersionOther nat

datatype ContentType =
    ContentTypeSSZ
  | ContentTypeJSON
  | ContentTypeOther nat

text \<open>
  Errors. \<open>errors_New m\<close> is \<^verbatim>\<open>errors.New(m)\<close> (and \<^verbatim>\<open>errors.Errorf\<close> with its arguments
  rendered); \<open>errors_Wrap err m\<close> is \<^verbatim>\<open>errors.Wrap(err, m)\<close>, whose text is \<open>m: err\<close>.
  A message formatted with a version or a content type keeps the format string and the
  argument, since their \<^verbatim>\<open>String\<close> methods are declared elsewhere. The remaining
  constructors are the errors of the Go library routines the decoders call:
  \<^verbatim>\<open>json.UnmarshalTypeError\<close> (JSON kind, struct, field, Go type), \<^verbatim>\<open>hex.InvalidByteError\<close>,
  \<^verbatim>\<open>hex.ErrLength\<close>, and \<^verbatim>\<open>strconv.NumError\<close> with \<^verbatim>\<open>ErrSyntax\<close> or \<^verbatim>\<open>ErrRange\<close>
  (function name, input).
\<close>

datatype error =
    errors_New string
  | errors_Wrap error string
  | errors_Wrapf error string DataVersion
  | fmt_Errorf_version string DataVersion
  | fmt_Errorf_contentType string ContentType
  | UnmarshalTypeError string string string string
  | InvalidByteError char
  | ErrLength
  | ErrSyntax string string
  | ErrRange string string

section \<open>Library routines: fmt, strconv, strings, encoding/hex\<close>

text \<open>\<^verbatim>\<open>fmt.Sprintf("%d", n)\<close> for an unsigned \<open>n\<close>.\<close>

fun fmt_d :: "nat \<Rightarrow> string" where
  "fmt_d n =
     (if n < 10 then [''0123456789'' ! n]
      else fmt_d (n div 10) @ [''0123456789'' ! (n mod 10)])"

declare fmt_d.simps [simp del]

definition maxUint64 :: nat where
  "maxUint64 = 2 ^ 64 - 1"

text \<open>
  \<^verbatim>\<open>strconv.ParseUint(s, 10, 64)\<close>: the digit of a byte as the library reads it (letters
  are digits of larger bases and are refused against the base), then the loop over the
  bytes with its two overflow tests.
\<close>

definition digit_of :: "char \<Rightarrow> nat option" where
  "digit_of c =
     (let n = (of_char c :: nat) in
      if 48 \<le> n \<and> n \<le> 57 then Some (n - 48)
      else if 97 \<le> n \<and> n \<le> 122 then Some (n - 97 + 10)
      else if 65 \<le> n \<and> n \<le> 90 then Some (n - 65 + 10)
      else None)"

fun ParseUint_loop :: "string \<Rightarrow> nat \<Rightarrow> string \<Rightarrow> error + nat" where
  "ParseUint_loop s0 n [] = Inr n"
| "ParseUint_loop s0 n (c # cs) =
     (case digit_of c of
        None \<Rightarrow> Inl (ErrSyntax ''ParseUint'' s0)
      | Some d \<Rightarrow>
          if d \<ge> 10 then Inl (ErrSyntax ''ParseUint'' s0)
          else if n \<ge> maxUint64 div 10 + 1 then Inl (ErrRange ''ParseUint'' s0)
          else if n * 10 + d > maxUint64 then Inl (ErrRange ''ParseUint'' s0)
          else ParseUint_loop s0 (n * 10 + d) cs)"

definition strconv_ParseUint :: "string \<Rightarrow> error + nat" where
  "strconv_ParseUint s =
     (if s = [] then Inl (ErrSyntax ''ParseUint'' s) else ParseUint_loop s 0 s)"

text \<open>\<^verbatim>\<open>strings.TrimPrefix\<close>.\<close>

definition strings_TrimPrefix :: "string \<Rightarrow> string \<Rightarrow> string" where
  "strings_TrimPrefix s p = (if take (length p) s = p then drop (length p) s else s)"

text \<open>
  \<^verbatim>\<open>hex.DecodeString\<close>: both cases of a hex digit are accepted; on an error the bytes
  decoded so far are returned with it.
\<close>

definition fromHexChar :: "char \<Rightarrow> nat option" where
  "fromHexChar c =
     (let n = (of_char c :: nat) in
      if 48 \<le> n \<and> n \<le> 57 then Some (n - 48)
      else if 97 \<le> n \<and> n \<le> 102 then Some (n - 97 + 10)
      else if 65 \<le> n \<and> n \<le> 70 then Some (n - 65 + 10)
      else None)"

fun hex_DecodeString :: "string \<Rightarrow> byte list \<times> error option" where
  "hex_DecodeString [] = ([], None)"
| "hex_DecodeString [p] =
     (case fromHexChar p of
        None \<Rightarrow> ([], Some (InvalidByteError p))
      | Some a \<Rightarrow> ([], Some ErrLength))"
| "hex_DecodeString (p # q # rest) =
     (case fromHexChar p of
        None \<Rightarrow> ([], Some (InvalidByteError p))
      | Some a \<Rightarrow>
          (case fromHexChar q of
             None \<Rightarrow> ([], Some (InvalidByteError q))
           | Some b \<Rightarrow>
               (case hex_DecodeString rest of
                  (bs, err) \<Rightarrow> (of_nat (16 * a + b) # bs, err))))"

text \<open>
  \<^verbatim>\<open>fmt.Sprintf("%#x", b)\<close> for a byte slice or byte array: lower-case hex digits after
  one leading \<^verbatim>\<open>0x\<close>, and nothing at all for an empty slice.
\<close>

definition hextable :: string where
  "hextable = ''0123456789abcdef''"

fun hex_digits :: "byte list \<Rightarrow> string" where
  "hex_digits [] = []"
| "hex_digits (b # bs) =
     hextable ! (unat b div 16) # hextable ! (unat b mod 16) # hex_digits bs"

definition fmt_sharp_x :: "byte list \<Rightarrow> string" where
  "fmt_sharp_x b = (if b = [] then [] else ''0x'' @ hex_digits b)"

section \<open>Library routine: encoding/json into a struct\<close>

text \<open>
  \<^verbatim>\<open>json.Unmarshal(input, &jso)\<close> for the \<^verbatim>\<open>...JSON\<close> structs of the codecs. A member's
  name selects the struct field whose tag equals it up to the case of ASCII letters; an
  unknown member is skipped. The members are stored in input order:
  \<^item> a pointer field whose type has its own \<^verbatim>\<open>UnmarshalJSON\<close> becomes nil on \<^verbatim>\<open>null\<close>, and
    otherwise that method decodes the member; its error ends the decoding at once;
  \<^item> a \<^verbatim>\<open>[]string\<close> field becomes nil on \<^verbatim>\<open>null\<close>; an array is stored element by
    element, \<^verbatim>\<open>null\<close> leaving the empty string; anything else is a type error;
  \<^item> a \<^verbatim>\<open>string\<close> field is left as it is on \<^verbatim>\<open>null\<close>; a non-string is a type error.
  The first type error is kept while the remaining members are still decoded, and is
  returned at the end. A \<^verbatim>\<open>null\<close> input leaves the struct at its zero value; any other
  input that is not an object is a type error. A later occurrence of a repeated member
  name is decoded afresh here (Go decodes it into the value the earlier one left).
\<close>

definition json_kind :: "json \<Rightarrow> string" where
  "json_kind j =
     (case j of
        JNull \<Rightarrow> ''null''
      | JBool b \<Rightarrow> ''bool''
      | JNumber n \<Rightarrow> ''number''
      | JString s \<Rightarrow> ''string''
      | JArray xs \<Rightarrow> ''array''
      | JObject kvs \<Rightarrow> ''object'')"

definition foldChar :: "char \<Rightarrow> char" where
  "foldChar c =
     (let n = (of_char c :: nat) in
      if 97 \<le> n \<and> n \<le> 122 then ''ABCDEFGHIJKLMNOPQRSTUVWXYZ'' ! (n - 97) else c)"

definition foldName :: "string \<Rightarrow> string" where
  "foldName s = map foldChar s"

type_synonym 'j member_result = "error + (error option \<times> 'j)"

definition member_ptr ::
  "(json \<Rightarrow> error + 'p) \<Rightarrow> json \<Rightarrow> ('p option \<Rightarrow> 'j) \<Rightarrow> 'j member_result" where
  "member_ptr unmarshal v store =
     (case v of
        JNull \<Rightarrow> Inr (None, store None)
      | _ \<Rightarrow>
          (case unmarshal v of
             Inl err \<Rightarrow> Inl err
           | Inr p \<Rightarrow> Inr (None, store (Some p))))"

fun string_elements :: "string \<Rightarrow> string \<Rightarrow> json list \<Rightarrow> error option \<times> string list" where
  "string_elements st fld [] = (None, [])"
| "string_elements st fld (x # xs) =
     (case string_elements st fld xs of
        (err, ss) \<Rightarrow>
          (case x of
             JString s \<Rightarrow> (err, s # ss)
           | JNull \<Rightarrow> (err, [] # ss)
           | _ \<Rightarrow> (Some (UnmarshalTypeError (json_kind x) st fld ''string''), [] # ss)))"

definition member_strings ::
  "string \<Rightarrow> string \<Rightarrow> json \<Rightarrow> (string list option \<Rightarrow> 'j) \<Rightarrow> 'j \<Rightarrow> 'j member_result" where
  "member_strings st fld v store jso =
     (case v of
        JNull \<Rightarrow> Inr (None, store None)
      | JArray xs \<Rightarrow>
          (case string_elements st fld xs of
             (err, ss) \<Rightarrow> Inr (err, store (Some ss)))
      | _ \<Rightarrow> Inr (Some (UnmarshalTypeError (json_kind v) st fld ''[]string''), jso))"

definition member_string ::
  "string \<Rightarrow> string \<Rightarrow> json \<Rightarrow> (string \<Rightarrow> 'j) \<Rightarrow> 'j \<Rightarrow> 'j member_result" where
  "member_string st fld v store jso =
     (case v of
        JNull \<Rightarrow> Inr (None, jso)
      | JString s \<Rightarrow> Inr (None, store s)
      | _ \<Rightarrow> Inr (Some (UnmarshalTypeError (json_kind v) st fld ''string''), jso))"

fun object_members ::
  "(string \<Rightarrow> json \<Rightarrow> 'j \<Rightarrow> 'j member_result) \<Rightarrow> (string \<times> json) list \<Rightarrow> 'j \<Rightarrow>
   error option \<Rightarrow> error + (error option \<times> 'j)" where
  "object_members member [] jso saved = Inr (saved, jso)"
| "object_members member ((k, v) # kvs) jso saved =
     (case member k v jso of
        Inl err \<Rightarrow> Inl err
      | Inr (err, jso') \<Rightarrow>
          object_members member kvs jso' (if saved = None then err else saved))"

definition json_Unmarshal_struct ::
  "string \<Rightarrow> (string \<Rightarrow> json \<Rightarrow> 'j \<Rightarrow> 'j member_result) \<Rightarrow> 'j \<Rightarrow> json \<Rightarrow> error + 'j" where
  "json_Unmarshal_struct ty member zero input =
     (case input of
        JNull \<Rightarrow> Inr zero
      | JObject kvs \<Rightarrow>
          (case object_members member kvs zero None of
             Inl err \<Rightarrow> Inl err
           | Inr (Some err, jso) \<Rightarrow> Inl err
           | Inr (None, jso) \<Rightarrow> Inr jso)
      | _ \<Rightarrow> Inl (UnmarshalTypeError (json_kind input) [] [] ty))"

text \<open>
  \<^verbatim>\<open>json.Marshal\<close> of such a struct: an object with one member per field, in declaration
  order. A nil pointer is \<^verbatim>\<open>null\<close>, any other pointer is encoded by its type's
  \<^verbatim>\<open>MarshalJSON\<close>, whose error fails the whole encoding.
\<close>

definition marshal_ptr :: "('p \<Rightarrow> error + json) \<Rightarrow> 'p option \<Rightarrow> error + json" where
  "marshal_ptr marshal p = (case p of None \<Rightarrow> Inr JNull | Some x \<Rightarrow> marshal x)"

definition marshal_strings :: "string list \<Rightarrow> error + json" where
  "marshal_strings ss = Inr (JArray (map JString ss))"

fun marshal_members :: "(string \<times> (error + json)) list \<Rightarrow> error + (string \<times> json) list" where
  "marshal_members [] = Inr []"
| "marshal_members ((k, r) # rest) =
     (case r of
        Inl err \<Rightarrow> Inl err
      | Inr v \<Rightarrow>
          (case marshal_members rest of
             Inl err \<Rightarrow> Inl err
           | Inr kvs \<Rightarrow> Inr ((k, v) # kvs)))"

definition json_Marshal_struct :: "(string \<times> (error + json)) list \<Rightarrow> error + json" where
  "json_Marshal_struct fields =
     (case marshal_members fields of Inl err \<Rightarrow> Inl err | Inr kvs \<Rightarrow> Inr (JObject kvs))"

text \<open>
  The sub-records \<^verbatim>\<open>phase0.BeaconBlockHeader\<close>, \<^verbatim>\<open>altair.SyncCommittee\<close>,
  \<^verbatim>\<open>altair.SyncAggregate\<close> and \<^verbatim>\<open>capella.ExecutionPayloadHeader\<close> are defined outside the
  files at hand. Their values are the type parameters \<open>'h\<close>, \<open>'c\<close>, \<open>'a\<close> and \<open>'e\<close>, and
  their JSON methods are parameters of every codec that calls them.
\<close>

record ('h, 'c, 'a, 'e) external =
  BeaconBlockHeader_UnmarshalJSON :: "json \<Rightarrow> error + 'h"
  BeaconBlockHeader_MarshalJSON :: "'h \<Rightarrow> error + json"
  SyncCommittee_UnmarshalJSON :: "json \<Rightarrow> error + 'c"
  SyncCommittee_MarshalJSON :: "'c \<Rightarrow> error + json"
  SyncAggregate_UnmarshalJSON :: "json \<Rightarrow> error + 'a"
  SyncAggregate_MarshalJSON :: "'a \<Rightarrow> error + json"
  ExecutionPayloadHeader_UnmarshalJSON :: "json \<Rightarrow> error + 'e"
  ExecutionPayloadHeader_MarshalJSON :: "'e \<Rightarrow> error + json"

section \<open>The blocks every UnmarshalJSON is made of\<close>

text \<open>
  After \<^verbatim>\<open>json.Unmarshal\<close> has filled the \<^verbatim>\<open>...JSON\<close> struct, every decoder runs one
  block per field, in declaration order; a block either returns an error or writes the
  field of the receiver \<^verbatim>\<open>l\<close>. A block is a function from the receiver to the error it
  returns (if any) and the receiver as it leaves it; \<open>run_steps\<close> runs the blocks up to
  the first error.
\<close>

type_synonym 'r step = "'r \<Rightarrow> error option \<times> 'r"

fun run_steps :: "'r step list \<Rightarrow> 'r step" where
  "run_steps [] l = (None, l)"
| "run_steps (s # ss) l =
     (case s l of
        (Some err, l') \<Rightarrow> (Some err, l')
      | (None, l') \<Rightarrow> run_steps ss l')"

text \<open>
  \<^verbatim>\<open>if jso.F == nil { return errors.New("f missing") }; l.F = jso.F\<close>
\<close>

definition require_ptr :: "string \<Rightarrow> 'p option \<Rightarrow> ('p option \<Rightarrow> 'r \<Rightarrow> 'r) \<Rightarrow> 'r step" where
  "require_ptr name p store l =
     (if p = None then (Some (errors_New (name @ '' missing'')), l)
      else (None, store p l))"

text \<open>
  The loop over a branch whose elements are byte slices (\<^verbatim>\<open>[][]byte\<close>): an empty string
  is reported as missing; the result of \<^verbatim>\<open>hex.DecodeString\<close> is stored in the element
  before its error and its length are looked at.
\<close>

fun branch_loop_slices ::
  "string \<Rightarrow> nat \<Rightarrow> string list \<Rightarrow> byte list list \<Rightarrow> error option \<times> byte list list" where
  "branch_loop_slices name i [] out = (None, out)"
| "branch_loop_slices name i (s # ss) out =
     (if s = [] then (Some (errors_New (name @ ''['' @ fmt_d i @ ''] missing'')), out)
      else
        (case hex_DecodeString (strings_TrimPrefix s ''0x'') of
           (b, Some err) \<Rightarrow>
             (Some (errors_Wrap err (''invalid value for '' @ name @ ''['' @ fmt_d i @ '']'')),
              out[i := b])
         | (b, None) \<Rightarrow>
             if length b \<noteq> 32
             then (Some (errors_New (''invalid length of '' @ name @ ''['' @ fmt_d i @ '']'')),
                   out[i := b])
             else branch_loop_slices name (Suc i) ss (out[i := b])))"

text \<open>
  The loop over a branch whose elements are 32-byte arrays (\<^verbatim>\<open>[][32]byte\<close>): there is no
  test for the empty string, and an element is copied only after both tests.
\<close>

fun branch_loop_arrays ::
  "string \<Rightarrow> nat \<Rightarrow> string list \<Rightarrow> byte list list \<Rightarrow> error option \<times> byte list list" where
  "branch_loop_arrays name i [] out = (None, out)"
| "branch_loop_arrays name i (s # ss) out =
     (case hex_DecodeString (strings_TrimPrefix s ''0x'') of
        (b, Some err) \<Rightarrow>
          (Some (errors_Wrap err (''invalid value for '' @ name @ ''['' @ fmt_d i @ '']'')), out)
      | (b, None) \<Rightarrow>
          if length b \<noteq> 32
          then (Some (errors_New (''invalid length of '' @ name @ ''['' @ fmt_d i @ '']'')), out)
          else branch_loop_arrays name (Suc i) ss (out[i := b]))"

text \<open>
  The block of a branch field: nil and empty are refused, then the receiver's field is
  allocated (\<^verbatim>\<open>make\<close>) and filled by the loop, which leaves what it wrote when it fails.
\<close>

definition branch_slices ::
  "string \<Rightarrow> string list option \<Rightarrow> (byte list list \<Rightarrow> 'r \<Rightarrow> 'r) \<Rightarrow> 'r step" where
  "branch_slices name js store l =
     (case js of
        None \<Rightarrow> (Some (errors_New (name @ '' missing'')), l)
      | Some ss \<Rightarrow>
          if length ss = 0 then (Some (errors_New (name @ '' length cannot be 0'')), l)
          else
            (case branch_loop_slices name 0 ss (replicate (length ss) []) of
               (err, out) \<Rightarrow> (err, store out l)))"

definition branch_arrays ::
  "string \<Rightarrow> string list option \<Rightarrow> (byte list list \<Rightarrow> 'r \<Rightarrow> 'r) \<Rightarrow> 'r step" where
  "branch_arrays name js store l =
     (case js of
        None \<Rightarrow> (Some (errors_New (name @ '' missing'')), l)
      | Some ss \<Rightarrow>
          if length ss = 0 then (Some (errors_New (name @ '' length cannot be 0'')), l)
          else
            (case branch_loop_arrays name 0 ss (replicate (length ss) (replicate 32 0)) of
               (err, out) \<Rightarrow> (err, store out l)))"

text \<open>
  The block of \<^verbatim>\<open>signature_slot\<close>, the same in the three records that have one.
\<close>

definition signature_slot :: "string \<Rightarrow> (64 word \<Rightarrow> 'r \<Rightarrow> 'r) \<Rightarrow> 'r step" where
  "signature_slot s store l =
     (if s = [] then (Some (errors_New ''signature_slot missing''), l)
      else
        (case strconv_ParseUint s of
           Inl err \<Rightarrow> (Some (errors_Wrap err ''invalid value for slot''), l)
         | Inr slot \<Rightarrow> (None, store (of_nat slot) l)))"

section \<open>The records and their JSON codecs\<close>

text \<open>
  A method with a fresh receiver, as \<^verbatim>\<open>encoding/json\<close> calls the \<^verbatim>\<open>UnmarshalJSON\<close> of a
  pointer field: the decoded record when the method returns no error.
\<close>

definition fresh :: "('r \<Rightarrow> json \<Rightarrow> error option \<times> 'r) \<Rightarrow> 'r \<Rightarrow> json \<Rightarrow> error + 'r" where
  "fresh unmarshal zero v =
     (case unmarshal zero v of
        (Some err, l) \<Rightarrow> Inl err
      | (None, l) \<Rightarrow> Inr l)"

subsection \<open>altair.LightClientHeader (spec/altair/lightclientheader.go)\<close>

record 'h altair_LightClientHeader =
  AH_Beacon :: "'h option"

record 'h altair_lightClientHeaderJSON =
  AHj_Beacon :: "'h option"

definition altair_LightClientHeader_zero :: "'h altair_LightClientHeader" where
  "altair_LightClientHeader_zero = \<lparr>AH_Beacon = None\<rparr>"

definition altair_lightClientHeaderJSON_zero :: "'h altair_lightClientHeaderJSON" where
  "altair_lightClientHeaderJSON_zero = \<lparr>AHj_Beacon = None\<rparr>"

definition altair_lightClientHeaderJSON_member ::
  "('h, 'c, 'a, 'e) external \<Rightarrow> string \<Rightarrow> json \<Rightarrow> 'h altair_lightClientHeaderJSON \<Rightarrow>
   'h altair_lightClientHeaderJSON member_result" where
  "altair_lightClientHeaderJSON_member X k v jso =
     (if foldName k = foldName ''beacon''
      then member_ptr (BeaconBlockHeader_UnmarshalJSON X) v (\<lambda>p. jso\<lparr>AHj_Beacon := p\<rparr>)
      else Inr (None, jso))"

definition json_Unmarshal_altair_lightClientHeaderJSON ::
  "('h, 'c, 'a, 'e) external \<Rightarrow> json \<Rightarrow> error + 'h altair_lightClientHeaderJSON" where
  "json_Unmarshal_altair_lightClientHeaderJSON X input =
     json_Unmarshal_struct ''altair.lightClientHeaderJSON'' (altair_lightClientHeaderJSON_member X)
       altair_lightClientHeaderJSON_zero input"

definition altair_LightClientHeader_steps ::
  "'h altair_lightClientHeaderJSON \<Rightarrow> 'h altair_LightClientHeader step list" where
  "altair_LightClientHeader_steps jso =
     [require_ptr ''beacon'' (AHj_Beacon jso) (\<lambda>p l. l\<lparr>AH_Beacon := p\<rparr>)]"

definition altair_LightClientHeader_UnmarshalJSON ::
  "('h, 'c, 'a, 'e) external \<Rightarrow> 'h altair_LightClientHeader \<Rightarrow> json \<Rightarrow>
   error option \<times> 'h altair_LightClientHeader" where
  "altair_LightClientHeader_UnmarshalJSON X l input =
     (case json_Unmarshal_altair_lightClientHeaderJSON X input of
        Inl err \<Rightarrow> (Some (errors_Wrap err ''invalid JSON''), l)
      | Inr jso \<Rightarrow> run_steps (altair_LightClientHeader_steps jso) l)"

definition altair_LightClientHeader_MarshalJSON ::
  "('h, 'c, 'a, 'e) external \<Rightarrow> 'h altair_LightClientHeader \<Rightarrow> error + json" where
  "altair_LightClientHeader_MarshalJSON X l =
     json_Marshal_struct
       [(''beacon'', marshal_ptr (BeaconBlockHeader_MarshalJSON X) (AH_Beacon l))]"

subsection \<open>altair.LightClientOptimisticUpdate (spec/altair/lightclientheader.go)\<close>

record ('h, 'a) altair_LightClientOptimisticUpdate =
  O_AttestedHeader :: "'h altair_LightClientHeader option"
  O_SyncAggregate :: "'a option"
  O_SignatureSlot :: "64 word"

record ('h, 'a) altair_lightClientOptimisticUpdateJSON =
  Oj_AttestedHeader :: "'h altair_LightClientHeader option"
  Oj_SyncAggregate :: "'a option"
  Oj_SignatureSlot :: string

definition altair_LightClientOptimisticUpdate_zero ::
  "('h, 'a) altair_LightClientOptimisticUpdate" where
  "altair_LightClientOptimisticUpdate_zero =
     \<lparr>O_AttestedHeader = None, O_SyncAggregate = None, O_SignatureSlot = 0\<rparr>"

definition altair_lightClientOptimisticUpdateJSON_zero ::
  "('h, 'a) altair_lightClientOptimisticUpdateJSON" where
  "altair_lightClientOptimisticUpdateJSON_zero =
     \<lparr>Oj_AttestedHeader = None, Oj_SyncAggregate = None, Oj_SignatureSlot = []\<rparr>"

definition altair_lightClientOptimisticUpdateJSON_member ::
  "('h, 'c, 'a, 'e) external \<Rightarrow> string \<Rightarrow> json \<Rightarrow>
   ('h, 'a) altair_lightClientOptimisticUpdateJSON \<Rightarrow>
   ('h, 'a) altair_lightClientOptimisticUpdateJSON member_result" where
  "altair_lightClientOptimisticUpdateJSON_member X k v jso =
     (if foldName k = foldName ''attested_header''
      then member_ptr (fresh (altair_LightClientHeader_UnmarshalJSON X) altair_LightClientHeader_zero)
             v (\<lambda>p. jso\<lparr>Oj_AttestedHeader := p\<rparr>)
      else if foldName k = foldName ''sync_aggregate''
      then member_ptr (SyncAggregate_UnmarshalJSON X) v (\<lambda>p. jso\<lparr>Oj_SyncAggregate := p\<rparr>)
      else if foldName k = foldName ''signature_slot''
      then member_string ''lightClientOptimisticUpdateJSON'' ''signature_slot'' v
             (\<lambda>s. jso\<lparr>Oj_SignatureSlot := s\<rparr>) jso
      else Inr (None, jso))"

definition json_Unmarshal_altair_lightClientOptimisticUpdateJSON ::
  "('h, 'c, 'a, 'e) external \<Rightarrow> json \<Rightarrow> error + ('h, 'a) altair_lightClientOptimisticUpdateJSON" where
  "json_Unmarshal_altair_lightClientOptimisticUpdateJSON X input =
     json_Unmarshal_struct ''altair.lightClientOptimisticUpdateJSON'' (altair_lightClientOptimisticUpdateJSON_member X)
       altair_lightClientOptimisticUpdateJSON_zero input"

definition altair_LightClientOptimisticUpdate_steps ::
  "('h, 'a) altair_lightClientOptimisticUpdateJSON \<Rightarrow>
   ('h, 'a) altair_LightClientOptimisticUpdate step list" where
  "altair_LightClientOptimisticUpdate_steps jso =
     [require_ptr ''attested_header'' (Oj_AttestedHeader jso) (\<lambda>p l. l\<lparr>O_AttestedHeader := p\<rparr>),
      require_ptr ''sync_aggregate'' (Oj_SyncAggregate jso) (\<lambda>p l. l\<lparr>O_SyncAggregate := p\<rparr>),
      signature_slot (Oj_SignatureSlot jso) (\<lambda>n l. l\<lparr>O_SignatureSlot := n\<rparr>)]"

definition altair_LightClientOptimisticUpdate_UnmarshalJSON ::
  "('h, 'c, 'a, 'e) external \<Rightarrow> ('h, 'a) altair_LightClientOptimisticUpdate \<Rightarrow> json \<Rightarrow>
   error option \<times> ('h, 'a) altair_LightClientOptimisticUpdate" where
  "altair_LightClientOptimisticUpdate_UnmarshalJSON X l input =
     (case json_Unmarshal_altair_lightClientOptimisticUpdateJSON X input of
        Inl err \<Rightarrow> (Some (errors_Wrap err ''invalid JSON''), l)
      | Inr jso \<Rightarrow> run_steps (altair_LightClientOptimisticUpdate_steps jso) l)"

definition altair_LightClientOptimisticUpdate_MarshalJSON ::
  "('h, 'c, 'a, 'e) external \<Rightarrow> ('h, 'a) altair_LightClientOptimisticUpdate \<Rightarrow> error + json" where
  "altair_LightClientOptimisticUpdate_MarshalJSON X l =
     json_Marshal_struct
       [(''attested_header'', marshal_ptr (altair_LightClientHeader_MarshalJSON X) (O_AttestedHeader l)),
        (''sync_aggregate'', marshal_ptr (SyncAggregate_MarshalJSON X) (O_SyncAggregate l)),
        (''signature_slot'', Inr (JString (fmt_d (unat (O_SignatureSlot l)))))]"

subsection \<open>capella.LightClientHeader (spec/capella/lightclientheader.go)\<close>

record ('h, 'e) capella_LightClientHeader =
  CH_Beacon :: "'h option"
  CH_Execution :: "'e option"
  CH_ExecutionBranch :: "byte list list"

record ('h, 'e) capella_lightClientHeaderJSON =
  CHj_Beacon :: "'h option"
  CHj_Execution :: "'e option"
  CHj_ExecutionBranch :: "string list option"

definition capella_LightClientHeader_zero :: "('h, 'e) capella_LightClientHeader" where
  "capella_LightClientHeader_zero =
     \<lparr>CH_Beacon = None, CH_Execution = None, CH_ExecutionBranch = []\<rparr>"

definition capella_lightClientHeaderJSON_zero :: "('h, 'e) capella_lightClientHeaderJSON" where
  "capella_lightClientHeaderJSON_zero =
     \<lparr>CHj_Beacon = None, CHj_Execution = None, CHj_ExecutionBranch = None\<rparr>"

definition capella_lightClientHeaderJSON_member ::
  "('h, 'c, 'a, 'e) external \<Rightarrow> string \<Rightarrow> json \<Rightarrow> ('h, 'e) capella_lightClientHeaderJSON \<Rightarrow>
   ('h, 'e) capella_lightClientHeaderJSON member_result" where
  "capella_lightClientHeaderJSON_member X k v jso =
     (if foldName k = foldName ''beacon''
      then member_ptr (BeaconBlockHeader_UnmarshalJSON X) v (\<lambda>p. jso\<lparr>CHj_Beacon := p\<rparr>)
      else if foldName k = foldName ''execution''
      then member_ptr (ExecutionPayloadHeader_UnmarshalJSON X) v (\<lambda>p. jso\<lparr>CHj_Execution := p\<rparr>)
      else if foldName k = foldName ''execution_branch''
      then member_strings ''lightClientHeaderJSON'' ''execution_branch'' v
             (\<lambda>b. jso\<lparr>CHj_ExecutionBranch := b\<rparr>) jso
      else Inr (None, jso))"

definition json_Unmarshal_capella_lightClientHeaderJSON ::
  "('h, 'c, 'a, 'e) external \<Rightarrow> json \<Rightarrow> error + ('h, 'e) capella_lightClientHeaderJSON" where
  "json_Unmarshal_capella_lightClientHeaderJSON X input =
     json_Unmarshal_struct ''capella.lightClientHeaderJSON'' (capella_lightClientHeaderJSON_member X)
       capella_lightClientHeaderJSON_zero input"

definition capella_LightClientHeader_steps ::
  "('h, 'e) capella_lightClientHeaderJSON \<Rightarrow> ('h, 'e) capella_LightClientHeader step list" where
  "capella_LightClientHeader_steps jso =
     [require_ptr ''beacon'' (CHj_Beacon jso) (\<lambda>p l. l\<lparr>CH_Beacon := p\<rparr>),
      require_ptr ''execution'' (CHj_Execution jso) (\<lambda>p l. l\<lparr>CH_Execution := p\<rparr>),
      branch_slices ''execution_branch'' (CHj_ExecutionBranch jso)
        (\<lambda>b l. l\<lparr>CH_ExecutionBranch := b\<rparr>)]"

definition capella_LightClientHeader_UnmarshalJSON ::
  "('h, 'c, 'a, 'e) external \<Rightarrow> ('h, 'e) capella_LightClientHeader \<Rightarrow> json \<Rightarrow>
   error option \<times> ('h, 'e) capella_LightClientHeader" where
  "capella_LightClientHeader_UnmarshalJSON X l input =
     (case json_Unmarshal_capella_lightClientHeaderJSON X input of
        Inl err \<Rightarrow> (Some (errors_Wrap err ''invalid JSON''), l)
      | Inr jso \<Rightarrow> run_steps (capella_LightClientHeader_steps jso) l)"

definition capella_LightClientHeader_MarshalJSON ::
  "('h, 'c, 'a, 'e) external \<Rightarrow> ('h, 'e) capella_LightClientHeader \<Rightarrow> error + json" where
  "capella_LightClientHeader_MarshalJSON X l =
     json_Marshal_struct
       [(''beacon'', marshal_ptr (BeaconBlockHeader_MarshalJSON X) (CH_Beacon l)),
        (''execution'', marshal_ptr (ExecutionPayloadHeader_MarshalJSON X) (CH_Execution l)),
        (''execution_branch'', marshal_strings (map fmt_sharp_x (CH_ExecutionBranch l)))]"

text \<open>\<^verbatim>\<open>ToAltair\<close> keeps the beacon header only.\<close>

definition capella_LightClientHeader_ToAltair ::
  "('h, 'e) capella_LightClientHeader \<Rightarrow> 'h altair_LightClientHeader" where
  "capella_LightClientHeader_ToAltair l = \<lparr>AH_Beacon = CH_Beacon l\<rparr>"

subsection \<open>capella.LightClientBootstrap\<close>

record ('h, 'c, 'e) capella_LightClientBootstrap =
  CB_Header :: "('h, 'e) capella_LightClientHeader option"
  CB_CurrentSyncCommittee :: "'c option"
  CB_CurrentSyncCommitteeBranch :: "byte list list"

record ('h, 'c, 'e) capella_lightClientBootstrapJSON =
  CBj_Header :: "('h, 'e) capella_LightClientHeader option"
  CBj_CurrentSyncCommittee :: "'c option"
  CBj_CurrentSyncCommitteeBranch :: "string list option"

definition capella_LightClientBootstrap_zero :: "('h, 'c, 'e) capella_LightClientBootstrap" where
  "capella_LightClientBootstrap_zero =
     \<lparr>CB_Header = None, CB_CurrentSyncCommittee = None, CB_CurrentSyncCommitteeBranch = []\<rparr>"

definition capella_lightClientBootstrapJSON_zero ::
  "('h, 'c, 'e) capella_lightClientBootstrapJSON" where
  "capella_lightClientBootstrapJSON_zero =
     \<lparr>CBj_Header = None, CBj_CurrentSyncCommittee = None, CBj_CurrentSyncCommitteeBranch = None\<rparr>"

definition capella_lightClientBootstrapJSON_member ::
  "('h, 'c, 'a, 'e) external \<Rightarrow> string \<Rightarrow> json \<Rightarrow> ('h, 'c, 'e) capella_lightClientBootstrapJSON \<Rightarrow>
   ('h, 'c, 'e) capella_lightClientBootstrapJSON member_result" where
  "capella_lightClientBootstrapJSON_member X k v jso =
     (if foldName k = foldName ''header''
      then member_ptr (fresh (capella_LightClientHeader_UnmarshalJSON X) capella_LightClientHeader_zero)
             v (\<lambda>p. jso\<lparr>CBj_Header := p\<rparr>)
      else if foldName k = foldName ''current_sync_committee''
      then member_ptr (SyncCommittee_UnmarshalJSON X) v (\<lambda>p. jso\<lparr>CBj_CurrentSyncCommittee := p\<rparr>)
      else if foldName k = foldName ''current_sync_committee_branch''
      then member_strings ''lightClientBootstrapJSON'' ''current_sync_committee_branch'' v
             (\<lambda>b. jso\<lparr>CBj_CurrentSyncCommitteeBranch := b\<rparr>) jso
      else Inr (None, jso))"

definition json_Unmarshal_capella_lightClientBootstrapJSON ::
  "('h, 'c, 'a, 'e) external \<Rightarrow> json \<Rightarrow> error + ('h, 'c, 'e) capella_lightClientBootstrapJSON" where
  "json_Unmarshal_capella_lightClientBootstrapJSON X input =
     json_Unmarshal_struct ''capella.lightClientBootstrapJSON'' (capella_lightClientBootstrapJSON_member X)
       capella_lightClientBootstrapJSON_zero input"

definition capella_LightClientBootstrap_steps ::
  "('h, 'c, 'e) capella_lightClientBootstrapJSON \<Rightarrow>
   ('h, 'c, 'e) capella_LightClientBootstrap step list" where
  "capella_LightClientBootstrap_steps jso =
     [require_ptr ''header'' (CBj_Header jso) (\<lambda>p l. l\<lparr>CB_Header := p\<rparr>),
      require_ptr ''current_sync_committee'' (CBj_CurrentSyncCommittee jso)
        (\<lambda>p l. l\<lparr>CB_CurrentSyncCommittee := p\<rparr>),
      branch_slices ''current_sync_committee_branch'' (CBj_CurrentSyncCommitteeBranch jso)
        (\<lambda>b l. l\<lparr>CB_CurrentSyncCommitteeBranch := b\<rparr>)]"

definition capella_LightClientBootstrap_UnmarshalJSON ::
  "('h, 'c, 'a, 'e) external \<Rightarrow> ('h, 'c, 'e) capella_LightClientBootstrap \<Rightarrow> json \<Rightarrow>
   error option \<times> ('h, 'c, 'e) capella_LightClientBootstrap" where
  "capella_LightClientBootstrap_UnmarshalJSON X l input =
     (case json_Unmarshal_capella_lightClientBootstrapJSON X input of
        Inl err \<Rightarrow> (Some (errors_Wrap err ''invalid JSON''), l)
      | Inr jso \<Rightarrow> run_steps (capella_LightClientBootstrap_steps jso) l)"

definition capella_LightClientBootstrap_MarshalJSON ::
  "('h, 'c, 'a, 'e) external \<Rightarrow> ('h, 'c, 'e) capella_LightClientBootstrap \<Rightarrow> error + json" where
  "capella_LightClientBootstrap_MarshalJSON X l =
     json_Marshal_struct
       [(''header'', marshal_ptr (capella_LightClientHeader_MarshalJSON X) (CB_Header l)),
        (''current_sync_committee'',
           marshal_ptr (SyncCommittee_MarshalJSON X) (CB_CurrentSyncCommittee l)),
        (''current_sync_committee_branch'',
           marshal_strings (map fmt_sharp_x (CB_CurrentSyncCommitteeBranch l)))]"

subsection \<open>v1.LightClientBootstrap (api/v1)\<close>

record ('h, 'c) v1_LightClientBootstrap =
  B_Header :: "'h option"
  B_CurrentSyncCommittee :: "'c option"
  B_CurrentSyncCommitteeBranch :: "byte list list"

record ('h, 'c) v1_lightClientBootstrapJSON =
  Bj_Header :: "'h option"
  Bj_CurrentSyncCommittee :: "'c option"
  Bj_CurrentSyncCommitteeBranch :: "string list option"

definition v1_LightClientBootstrap_zero :: "('h, 'c) v1_LightClientBootstrap" where
  "v1_LightClientBootstrap_zero =
     \<lparr>B_Header = None, B_CurrentSyncCommittee = None, B_CurrentSyncCommitteeBranch = []\<rparr>"

definition v1_lightClientBootstrapJSON_zero :: "('h, 'c) v1_lightClientBootstrapJSON" where
  "v1_lightClientBootstrapJSON_zero =
     \<lparr>Bj_Header = None, Bj_CurrentSyncCommittee = None, Bj_CurrentSyncCommitteeBranch = None\<rparr>"

definition v1_lightClientBootstrapJSON_member ::
  "('h, 'c, 'a, 'e) external \<Rightarrow> string \<Rightarrow> json \<Rightarrow> ('h, 'c) v1_lightClientBootstrapJSON \<Rightarrow>
   ('h, 'c) v1_lightClientBootstrapJSON member_result" where
  "v1_lightClientBootstrapJSON_member X k v jso =
     (if foldName k = foldName ''header''
      then member_ptr (BeaconBlockHeader_UnmarshalJSON X) v (\<lambda>p. jso\<lparr>Bj_Header := p\<rparr>)
      else if foldName k = foldName ''current_sync_committee''
      then member_ptr (SyncCommittee_UnmarshalJSON X) v (\<lambda>p. jso\<lparr>Bj_CurrentSyncCommittee := p\<rparr>)
      else if foldName k = foldName ''current_sync_committee_branch''
      then member_strings ''lightClientBootstrapJSON'' ''current_sync_committee_branch'' v
             (\<lambda>b. jso\<lparr>Bj_CurrentSyncCommitteeBranch := b\<rparr>) jso
      else Inr (None, jso))"

definition json_Unmarshal_v1_lightClientBootstrapJSON ::
  "('h, 'c, 'a, 'e) external \<Rightarrow> json \<Rightarrow> error + ('h, 'c) v1_lightClientBootstrapJSON" where
  "json_Unmarshal_v1_lightClientBootstrapJSON X input =
     json_Unmarshal_struct ''v1.lightClientBootstrapJSON'' (v1_lightClientBootstrapJSON_member X)
       v1_lightClientBootstrapJSON_zero input"

definition v1_LightClientBootstrap_steps ::
  "('h, 'c) v1_lightClientBootstrapJSON \<Rightarrow> ('h, 'c) v1_LightClientBootstrap step list" where
  "v1_LightClientBootstrap_steps jso =
     [require_ptr ''header'' (Bj_Header jso) (\<lambda>p l. l\<lparr>B_Header := p\<rparr>),
      require_ptr ''current_sync_committee'' (Bj_CurrentSyncCommittee jso)
        (\<lambda>p l. l\<lparr>B_CurrentSyncCommittee := p\<rparr>),
      branch_arrays ''current_sync_committee_branch'' (Bj_CurrentSyncCommitteeBranch jso)
        (\<lambda>b l. l\<lparr>B_CurrentSyncCommitteeBranch := b\<rparr>)]"

definition v1_LightClientBootstrap_UnmarshalJSON ::
  "('h, 'c, 'a, 'e) external \<Rightarrow> ('h, 'c) v1_LightClientBootstrap \<Rightarrow> json \<Rightarrow>
   error option \<times> ('h, 'c) v1_LightClientBootstrap" where
  "v1_LightClientBootstrap_UnmarshalJSON X l input =
     (case json_Unmarshal_v1_lightClientBootstrapJSON X input of
        Inl err \<Rightarrow> (Some (errors_Wrap err ''invalid JSON''), l)
      | Inr jso \<Rightarrow> run_steps (v1_LightClientBootstrap_steps jso) l)"

definition v1_LightClientBootstrap_MarshalJSON ::
  "('h, 'c, 'a, 'e) external \<Rightarrow> ('h, 'c) v1_LightClientBootstrap \<Rightarrow> error + json" where
  "v1_LightClientBootstrap_MarshalJSON X l =
     json_Marshal_struct
       [(''header'', marshal_ptr (BeaconBlockHeader_MarshalJSON X) (B_Header l)),
        (''current_sync_committee'',
           marshal_ptr (SyncCommittee_MarshalJSON X) (B_CurrentSyncCommittee l)),
        (''current_sync_committee_branch'',
           marshal_strings (map fmt_sharp_x (B_CurrentSyncCommitteeBranch l)))]"

subsection \<open>v1.LightClientFinalityUpdate (api/v1/lightclientfinalityupdate.go)\<close>

record ('h, 'a) v1_LightClientFinalityUpdate =
  F_AttestedHeader :: "'h option"
  F_FinalizedHeader :: "'h option"
  F_FinalityBranch :: "byte list list"
  F_SyncAggregate :: "'a option"
  F_SignatureSlot :: "64 word"

record ('h, 'a) v1_lightClientFinalityUpdateJSON =
  Fj_AttestedHeader :: "'h option"
  Fj_FinalizedHeader :: "'h option"
  Fj_FinalityBranch :: "string list option"
  Fj_SyncAggregate :: "'a option"
  Fj_SignatureSlot :: string

definition v1_LightClientFinalityUpdate_zero :: "('h, 'a) v1_LightClientFinalityUpdate" where
  "v1_LightClientFinalityUpdate_zero =
     \<lparr>F_AttestedHeader = None, F_FinalizedHeader = None, F_FinalityBranch = [],
      F_SyncAggregate = None, F_SignatureSlot = 0\<rparr>"

definition v1_lightClientFinalityUpdateJSON_zero :: "('h, 'a) v1_lightClientFinalityUpdateJSON" where
  "v1_lightClientFinalityUpdateJSON_zero =
     \<lparr>Fj_AttestedHeader = None, Fj_FinalizedHeader = None, Fj_FinalityBranch = None,
      Fj_SyncAggregate = None, Fj_SignatureSlot = []\<rparr>"

definition v1_lightClientFinalityUpdateJSON_member ::
  "('h, 'c, 'a, 'e) external \<Rightarrow> string \<Rightarrow> json \<Rightarrow> ('h, 'a) v1_lightClientFinalityUpdateJSON \<Rightarrow>
   ('h, 'a) v1_lightClientFinalityUpdateJSON member_result" where
  "v1_lightClientFinalityUpdateJSON_member X k v jso =
     (if foldName k = foldName ''attested_header''
      then member_ptr (BeaconBlockHeader_UnmarshalJSON X) v (\<lambda>p. jso\<lparr>Fj_AttestedHeader := p\<rparr>)
      else if foldName k = foldName ''finalized_header''
      then member_ptr (BeaconBlockHeader_UnmarshalJSON X) v (\<lambda>p. jso\<lparr>Fj_FinalizedHeader := p\<rparr>)
      else if foldName k = foldName ''finality_branch''
      then member_strings ''lightClientFinalityUpdateJSON'' ''finality_branch'' v
             (\<lambda>b. jso\<lparr>Fj_FinalityBranch := b\<rparr>) jso
      else if foldName k = foldName ''sync_aggregate''
      then member_ptr (SyncAggregate_UnmarshalJSON X) v (\<lambda>p. jso\<lparr>Fj_SyncAggregate := p\<rparr>)
      else if foldName k = foldName ''signature_slot''
      then member_string ''lightClientFinalityUpdateJSON'' ''signature_slot'' v
             (\<lambda>s. jso\<lparr>Fj_SignatureSlot := s\<rparr>) jso
      else Inr (None, jso))"

definition json_Unmarshal_v1_lightClientFinalityUpdateJSON ::
  "('h, 'c, 'a, 'e) external \<Rightarrow> json \<Rightarrow> error + ('h, 'a) v1_lightClientFinalityUpdateJSON" where
  "json_Unmarshal_v1_lightClientFinalityUpdateJSON X input =
     json_Unmarshal_struct ''v1.lightClientFinalityUpdateJSON'' (v1_lightClientFinalityUpdateJSON_member X)
       v1_lightClientFinalityUpdateJSON_zero input"

definition v1_LightClientFinalityUpdate_steps ::
  "('h, 'a) v1_lightClientFinalityUpdateJSON \<Rightarrow> ('h, 'a) v1_LightClientFinalityUpdate step list" where
  "v1_LightClientFinalityUpdate_steps jso =
     [require_ptr ''attested_header'' (Fj_AttestedHeader jso) (\<lambda>p l. l\<lparr>F_AttestedHeader := p\<rparr>),
      require_ptr ''finalized_header'' (Fj_FinalizedHeader jso) (\<lambda>p l. l\<lparr>F_FinalizedHeader := p\<rparr>),
      branch_arrays ''finality_branch'' (Fj_FinalityBranch jso) (\<lambda>b l. l\<lparr>F_FinalityBranch := b\<rparr>),
      require_ptr ''sync_aggregate'' (Fj_SyncAggregate jso) (\<lambda>p l. l\<lparr>F_SyncAggregate := p\<rparr>),
      signature_slot (Fj_SignatureSlot jso) (\<lambda>n l. l\<lparr>F_SignatureSlot := n\<rparr>)]"

definition v1_LightClientFinalityUpdate_UnmarshalJSON ::
  "('h, 'c, 'a, 'e) external \<Rightarrow> ('h, 'a) v1_LightClientFinalityUpdate \<Rightarrow> json \<Rightarrow>
   error option \<times> ('h, 'a) v1_LightClientFinalityUpdate" where
  "v1_LightClientFinalityUpdate_UnmarshalJSON X l input =
     (case json_Unmarshal_v1_lightClientFinalityUpdateJSON X input of
        Inl err \<Rightarrow> (Some (errors_Wrap err ''invalid JSON''), l)
      | Inr jso \<Rightarrow> run_steps (v1_LightClientFinalityUpdate_steps jso) l)"

definition v1_LightClientFinalityUpdate_MarshalJSON ::
  "('h, 'c, 'a, 'e) external \<Rightarrow> ('h, 'a) v1_LightClientFinalityUpdate \<Rightarrow> error + json" where
  "v1_LightClientFinalityUpdate_MarshalJSON X l =
     json_Marshal_struct
       [(''attested_header'', marshal_ptr (BeaconBlockHeader_MarshalJSON X) (F_AttestedHeader l)),
        (''finalized_header'', marshal_ptr (BeaconBlockHeader_MarshalJSON X) (F_FinalizedHeader l)),
        (''finality_branch'', marshal_strings (map fmt_sharp_x (F_FinalityBranch l))),
        (''sync_aggregate'', marshal_ptr (SyncAggregate_MarshalJSON X) (F_SyncAggregate l)),
        (''signature_slot'', Inr (JString (fmt_d (unat (F_SignatureSlot l)))))]"

subsection \<open>v1.LightClientUpdate (api/v1/lightclientupdate.go)\<close>

record ('h, 'c, 'a) v1_LightClientUpdate =
  U_AttestedHeader :: "'h option"
  U_NextSyncCommittee :: "'c option"
  U_NextSyncCommitteeBranch :: "byte list list"
  U_FinalizedHeader :: "'h option"
  U_FinalityBranch :: "byte list list"
  U_SyncAggregate :: "'a option"
  U_SignatureSlot :: "64 word"

record ('h, 'c, 'a) v1_lightClientUpdateJSON =
  Uj_AttestedHeader :: "'h option"
  Uj_NextSyncCommittee :: "'c option"
  Uj_NextSyncCommitteeBranch :: "string list option"
  Uj_FinalizedHeader :: "'h option"
  Uj_FinalityBranch :: "string list option"
  Uj_SyncAggregate :: "'a option"
  Uj_SignatureSlot :: string

definition v1_LightClientUpdate_zero :: "('h, 'c, 'a) v1_LightClientUpdate" where
  "v1_LightClientUpdate_zero =
     \<lparr>U_AttestedHeader = None, U_NextSyncCommittee = None, U_NextSyncCommitteeBranch = [],
      U_FinalizedHeader = None, U_FinalityBranch = [], U_SyncAggregate = None,
      U_SignatureSlot = 0\<rparr>"

definition v1_lightClientUpdateJSON_zero :: "('h, 'c, 'a) v1_lightClientUpdateJSON" where
  "v1_lightClientUpdateJSON_zero =
     \<lparr>Uj_AttestedHeader = None, Uj_NextSyncCommittee = None, Uj_NextSyncCommitteeBranch = None,
      Uj_FinalizedHeader = None, Uj_FinalityBranch = None, Uj_SyncAggregate = None,
      Uj_SignatureSlot = []\<rparr>"

definition v1_lightClientUpdateJSON_member ::
  "('h, 'c, 'a, 'e) external \<Rightarrow> string \<Rightarrow> json \<Rightarrow> ('h, 'c, 'a) v1_lightClientUpdateJSON \<Rightarrow>
   ('h, 'c, 'a) v1_lightClientUpdateJSON member_result" where
  "v1_lightClientUpdateJSON_member X k v jso =
     (if foldName k = foldName ''attested_header''
      then member_ptr (BeaconBlockHeader_UnmarshalJSON X) v (\<lambda>p. jso\<lparr>Uj_AttestedHeader := p\<rparr>)
      else if foldName k = foldName ''next_sync_committee''
      then member_ptr (SyncCommittee_UnmarshalJSON X) v (\<lambda>p. jso\<lparr>Uj_NextSyncCommittee := p\<rparr>)
      else if foldName k = foldName ''next_sync_committee_branch''
      then member_strings ''lightClientUpdateJSON'' ''next_sync_committee_branch'' v
             (\<lambda>b. jso\<lparr>Uj_NextSyncCommitteeBranch := b\<rparr>) jso
      else if foldName k = foldName ''finalized_header''
      then member_ptr (BeaconBlockHeader_UnmarshalJSON X) v (\<lambda>p. jso\<lparr>Uj_FinalizedHeader := p\<rparr>)
      else if foldName k = foldName ''finality_branch''
      then member_strings ''lightClientUpdateJSON'' ''finality_branch'' v
             (\<lambda>b. jso\<lparr>Uj_FinalityBranch := b\<rparr>) jso
      else if foldName k = foldName ''sync_aggregate''
      then member_ptr (SyncAggregate_UnmarshalJSON X) v (\<lambda>p. jso\<lparr>Uj_SyncAggregate := p\<rparr>)
      else if foldName k = foldName ''signature_slot''
      then member_string ''lightClientUpdateJSON'' ''signature_slot'' v
             (\<lambda>s. jso\<lparr>Uj_SignatureSlot := s\<rparr>) jso
      else Inr (None, jso))"

definition json_Unmarshal_v1_lightClientUpdateJSON ::
  "('h, 'c, 'a, 'e) external \<Rightarrow> json \<Rightarrow> error + ('h, 'c, 'a) v1_lightClientUpdateJSON" where
  "json_Unmarshal_v1_lightClientUpdateJSON X input =
     json_Unmarshal_struct ''v1.lightClientUpdateJSON'' (v1_lightClientUpdateJSON_member X)
       v1_lightClientUpdateJSON_zero input"

definition v1_LightClientUpdate_steps ::
  "('h, 'c, 'a) v1_lightClientUpdateJSON \<Rightarrow> ('h, 'c, 'a) v1_LightClientUpdate step list" where
  "v1_LightClientUpdate_steps jso =
     [require_ptr ''attested_header'' (Uj_AttestedHeader jso) (\<lambda>p l. l\<lparr>U_AttestedHeader := p\<rparr>),
      require_ptr ''next_sync_committee'' (Uj_NextSyncCommittee jso)
        (\<lambda>p l. l\<lparr>U_NextSyncCommittee := p\<rparr>),
      branch_slices ''next_sync_committee_branch'' (Uj_NextSyncCommitteeBranch jso)
        (\<lambda>b l. l\<lparr>U_NextSyncCommitteeBranch := b\<rparr>),
      require_ptr ''finalized_header'' (Uj_FinalizedHeader jso) (\<lambda>p l. l\<lparr>U_FinalizedHeader := p\<rparr>),
      branch_slices ''finality_branch'' (Uj_FinalityBranch jso) (\<lambda>b l. l\<lparr>U_FinalityBranch := b\<rparr>),
      require_ptr ''sync_aggregate'' (Uj_SyncAggregate jso) (\<lambda>p l. l\<lparr>U_SyncAggregate := p\<rparr>),
      signature_slot (Uj_SignatureSlot jso) (\<lambda>n l. l\<lparr>U_SignatureSlot := n\<rparr>)]"

definition v1_LightClientUpdate_UnmarshalJSON ::
  "('h, 'c, 'a, 'e) external \<Rightarrow> ('h, 'c, 'a) v1_LightClientUpdate \<Rightarrow> json \<Rightarrow>
   error option \<times> ('h, 'c, 'a) v1_LightClientUpdate" where
  "v1_LightClientUpdate_UnmarshalJSON X l input =
     (case json_Unmarshal_v1_lightClientUpdateJSON X input of
        Inl err \<Rightarrow> (Some (errors_Wrap err ''invalid JSON''), l)
      | Inr jso \<Rightarrow> run_steps (v1_LightClientUpdate_steps jso) l)"

definition v1_LightClientUpdate_MarshalJSON ::
  "('h, 'c, 'a, 'e) external \<Rightarrow> ('h, 'c, 'a) v1_LightClientUpdate \<Rightarrow> error + json" where
  "v1_LightClientUpdate_MarshalJSON X l =
     json_Marshal_struct
       [(''attested_header'', marshal_ptr (BeaconBlockHeader_MarshalJSON X) (U_AttestedHeader l)),
        (''next_sync_committee'', marshal_ptr (SyncCommittee_MarshalJSON X) (U_NextSyncCommittee l)),
        (''next_sync_committee_branch'',
           marshal_strings (map fmt_sharp_x (U_NextSyncCommitteeBranch l))),
        (''finalized_header'', marshal_ptr (BeaconBlockHeader_MarshalJSON X) (U_FinalizedHeader l)),
        (''finality_branch'', marshal_strings (map fmt_sharp_x (U_FinalityBranch l))),
        (''sync_aggregate'', marshal_ptr (SyncAggregate_MarshalJSON X) (U_SyncAggregate l)),
        (''signature_slot'', Inr (JString (fmt_d (unat (U_SignatureSlot l)))))]"

section \<open>The HTTP service (http/lightclient.go)\<close>

text \<open>
  A response of the service's \<^verbatim>\<open>get\<close>: the content type and the consensus version it
  declares, its headers and its body. The body is the parameter \<open>'b\<close>: the decoders that
  read it are declared outside the files at hand and are parameters (\<open>fork_codecs\<close>):
  \<^item> \<^verbatim>\<open>UnmarshalSSZ\<close> of the Altair, Capella and Deneb shape of a record, called on a new
    record: the record it leaves, or its error;
  \<^item> \<^verbatim>\<open>decodeJSONResponse\<close> with a new record of each shape: the pointer and the metadata it
    returns, or its error;
  \<^item> \<^verbatim>\<open>metadataFromHeaders\<close>.
  A response tagged Bellatrix is decoded with the Altair shape.
\<close>

record ('b, 'hd) httpResponse =
  contentType :: ContentType
  consensusVersion :: DataVersion
  headers :: 'hd
  body :: 'b

record ('x, 'y, 'z) Versioned =
  Version :: DataVersion
  Altair :: "'x option"
  Bellatrix :: "'x option"
  Capella :: "'y option"
  Deneb :: "'z option"

record ('d, 'm) Response =
  Data :: 'd
  Metadata :: 'm

record ('b, 'hd, 'm, 'x, 'y, 'z) fork_codecs =
  UnmarshalSSZ_altair :: "'b \<Rightarrow> error + 'x"
  UnmarshalSSZ_capella :: "'b \<Rightarrow> error + 'y"
  UnmarshalSSZ_deneb :: "'b \<Rightarrow> error + 'z"
  decodeJSONResponse_altair :: "'b \<Rightarrow> error + ('x option \<times> 'm)"
  decodeJSONResponse_capella :: "'b \<Rightarrow> error + ('y option \<times> 'm)"
  decodeJSONResponse_deneb :: "'b \<Rightarrow> error + ('z option \<times> 'm)"
  metadataFromHeaders :: "'hd \<Rightarrow> 'm"

subsection \<open>LightClientBootstrap\<close>

definition lightClientBootstrapFromSSZ ::
  "('b, 'hd, 'm, 'x, 'y, 'z) fork_codecs \<Rightarrow> ('b, 'hd) httpResponse \<Rightarrow>
   error + (('x, 'y, 'z) Versioned, 'm) Response" where
  "lightClientBootstrapFromSSZ K res =
     (let data = \<lparr>Version = consensusVersion res, Altair = None, Bellatrix = None,
                  Capella = None, Deneb = None\<rparr>;
          decoded =
            (case consensusVersion res of
               DataVersionPhase0 \<Rightarrow>
                 Inl (fmt_Errorf_version ''unsupported version %s'' (consensusVersion res))
             | DataVersionAltair \<Rightarrow>
                 (case UnmarshalSSZ_altair K (body res) of
                    Inl err \<Rightarrow> Inl err
                  | Inr x \<Rightarrow> Inr (data\<lparr>Altair := Some x\<rparr>))
             | DataVersionBellatrix \<Rightarrow>
                 (case UnmarshalSSZ_altair K (body res) of
                    Inl err \<Rightarrow> Inl err
                  | Inr x \<Rightarrow> Inr (data\<lparr>Bellatrix := Some x\<rparr>))
             | DataVersionCapella \<Rightarrow>
                 (case UnmarshalSSZ_capella K (body res) of
                    Inl err \<Rightarrow> Inl err
                  | Inr y \<Rightarrow> Inr (data\<lparr>Capella := Some y\<rparr>))
             | DataVersionDeneb \<Rightarrow>
                 (case UnmarshalSSZ_deneb K (body res) of
                    Inl err \<Rightarrow> Inl err
                  | Inr z \<Rightarrow> Inr (data\<lparr>Deneb := Some z\<rparr>))
             | DataVersionOther n \<Rightarrow>
                 Inl (fmt_Errorf_version ''unsupported version %s'' (consensusVersion res)))
      in case decoded of
           Inl err \<Rightarrow>
             Inl (errors_Wrapf err ''failed to decode %s light client optimistic update''
                    (consensusVersion res))
         | Inr d \<Rightarrow> Inr \<lparr>Data = d, Metadata = metadataFromHeaders K (headers res)\<rparr>)"

definition lightClientBootstrapFromJSON ::
  "('b, 'hd, 'm, 'x, 'y, 'z) fork_codecs \<Rightarrow> ('b, 'hd) httpResponse \<Rightarrow>
   error + (('x, 'y, 'z) Versioned, 'm) Response" where
  "lightClientBootstrapFromJSON K res =
     (let update = \<lparr>Version = consensusVersion res, Altair = None, Bellatrix = None,
                    Capella = None, Deneb = None\<rparr>
      in case consensusVersion res of
           DataVersionPhase0 \<Rightarrow> Inl (fmt_Errorf_version ''unsupported version %s'' (consensusVersion res))
         | DataVersionAltair \<Rightarrow>
             (case decodeJSONResponse_altair K (body res) of
                Inl err \<Rightarrow> Inl err
              | Inr (x, metadata) \<Rightarrow> Inr \<lparr>Data = update\<lparr>Altair := x\<rparr>, Metadata = metadata\<rparr>)
         | DataVersionBellatrix \<Rightarrow>
             (case decodeJSONResponse_altair K (body res) of
                Inl err \<Rightarrow> Inl err
              | Inr (x, metadata) \<Rightarrow> Inr \<lparr>Data = update\<lparr>Bellatrix := x\<rparr>, Metadata = metadata\<rparr>)
         | DataVersionCapella \<Rightarrow>
             (case decodeJSONResponse_capella K (body res) of
                Inl err \<Rightarrow> Inl err
              | Inr (y, metadata) \<Rightarrow> Inr \<lparr>Data = update\<lparr>Capella := y\<rparr>, Metadata = metadata\<rparr>)
         | DataVersionDeneb \<Rightarrow>
             (case decodeJSONResponse_deneb K (body res) of
                Inl err \<Rightarrow> Inl err
              | Inr (z, metadata) \<Rightarrow> Inr \<lparr>Data = update\<lparr>Deneb := z\<rparr>, Metadata = metadata\<rparr>)
         | DataVersionOther n \<Rightarrow> Inl (fmt_Errorf_version ''unsupported version %s'' (consensusVersion res)))"

text \<open>
  The operation itself. \<open>got\<close> is what \<^verbatim>\<open>s.get\<close> returned for the request: an error, no
  response (nil), or a response.
\<close>

definition LightClientBootstrap ::
  "('b, 'hd, 'm, 'x, 'y, 'z) fork_codecs \<Rightarrow> error + ('b, 'hd) httpResponse option \<Rightarrow>
   error + (('x, 'y, 'z) Versioned, 'm) Response option" where
  "LightClientBootstrap K got =
     (case got of
        Inl err \<Rightarrow> Inl (errors_Wrap err ''failed to request beacon light client bootstrap'')
      | Inr None \<Rightarrow> Inr None
      | Inr (Some resp) \<Rightarrow>
          (case contentType resp of
             ContentTypeSSZ \<Rightarrow>
               (case lightClientBootstrapFromSSZ K resp of Inl err \<Rightarrow> Inl err | Inr r \<Rightarrow> Inr (Some r))
           | ContentTypeJSON \<Rightarrow>
               (case lightClientBootstrapFromJSON K resp of Inl err \<Rightarrow> Inl err | Inr r \<Rightarrow> Inr (Some r))
           | ContentTypeOther n \<Rightarrow>
               Inl (fmt_Errorf_contentType ''unhandled content type %v'' (contentType resp))))"

subsection \<open>LightClientFinalityUpdate\<close>

definition lightClientFinalityUpdateFromSSZ ::
  "('b, 'hd, 'm, 'x, 'y, 'z) fork_codecs \<Rightarrow> ('b, 'hd) httpResponse \<Rightarrow>
   error + (('x, 'y, 'z) Versioned, 'm) Response" where
  "lightClientFinalityUpdateFromSSZ K res =
     (let data = \<lparr>Version = consensusVersion res, Altair = None, Bellatrix = None,
                  Capella = None, Deneb = None\<rparr>;
          decoded =
            (case consensusVersion res of
               DataVersionPhase0 \<Rightarrow>
                 Inl (fmt_Errorf_version ''unsupported version %s'' (consensusVersion res))
             | DataVersionAltair \<Rightarrow>
                 (case UnmarshalSSZ_altair K (body res) of
                    Inl err \<Rightarrow> Inl err
                  | Inr x \<Rightarrow> Inr (data\<lparr>Altair := Some x\<rparr>))
             | DataVersionBellatrix \<Rightarrow>
                 (case UnmarshalSSZ_altair K (body res) of
                    Inl err \<Rightarrow> Inl err
                  | Inr x \<Rightarrow> Inr (data\<lparr>Bellatrix := Some x\<rparr>))
             | DataVersionCapella \<Rightarrow>
                 (case UnmarshalSSZ_capella K (body res) of
                    Inl err \<Rightarrow> Inl err
                  | Inr y \<Rightarrow> Inr (data\<lparr>Capella := Some y\<rparr>))
             | DataVersionDeneb \<Rightarrow>
                 (case UnmarshalSSZ_deneb K (body res) of
                    Inl err \<Rightarrow> Inl err
                  | Inr z \<Rightarrow> Inr (data\<lparr>Deneb := Some z\<rparr>))
             | DataVersionOther n \<Rightarrow>
                 Inl (fmt_Errorf_version ''unsupported version %s'' (consensusVersion res)))
      in case decoded of
           Inl err \<Rightarrow>
             Inl (errors_Wrapf err ''failed to decode %s light client optimistic update''
                    (consensusVersion res))
         | Inr d \<Rightarrow> Inr \<lparr>Data = d, Metadata = metadataFromHeaders K (headers res)\<rparr>)"

definition versionedLCFinalityUpdateFromJSON ::
  "('b, 'hd, 'm, 'x, 'y, 'z) fork_codecs \<Rightarrow> DataVersion \<Rightarrow> 'b \<Rightarrow>
   error + (('x, 'y, 'z) Versioned, 'm) Response" where
  "versionedLCFinalityUpdateFromJSON K version data =
     (let update = \<lparr>Version = version, Altair = None, Bellatrix = None,
                    Capella = None, Deneb = None\<rparr>
      in case version of
           DataVersionPhase0 \<Rightarrow> Inl (fmt_Errorf_version ''unsupported version %s'' (version))
         | DataVersionAltair \<Rightarrow>
             (case decodeJSONResponse_altair K (data) of
                Inl err \<Rightarrow> Inl err
              | Inr (x, metadata) \<Rightarrow> Inr \<lparr>Data = update\<lparr>Altair := x\<rparr>, Metadata = metadata\<rparr>)
         | DataVersionBellatrix \<Rightarrow>
             (case decodeJSONResponse_altair K (data) of
                Inl err \<Rightarrow> Inl err
              | Inr (x, metadata) \<Rightarrow> Inr \<lparr>Data = update\<lparr>Bellatrix := x\<rparr>, Metadata = metadata\<rparr>)
         | DataVersionCapella \<Rightarrow>
             (case decodeJSONResponse_capella K (data) of
                Inl err \<Rightarrow> Inl err
              | Inr (y, metadata) \<Rightarrow> Inr \<lparr>Data = update\<lparr>Capella := y\<rparr>, Metadata = metadata\<rparr>)
         | DataVersionDeneb \<Rightarrow>
             (case decodeJSONResponse_deneb K (data) of
                Inl err \<Rightarrow> Inl err
              | Inr (z, metadata) \<Rightarrow> Inr \<lparr>Data = update\<lparr>Deneb := z\<rparr>, Metadata = metadata\<rparr>)
         | DataVersionOther n \<Rightarrow> Inl (fmt_Errorf_version ''unsupported version %s'' (version)))"

definition lightClientFinalityUpdateFromJSON ::
  "('b, 'hd, 'm, 'x, 'y, 'z) fork_codecs \<Rightarrow> ('b, 'hd) httpResponse \<Rightarrow>
   error + (('x, 'y, 'z) Versioned, 'm) Response" where
  "lightClientFinalityUpdateFromJSON K res =
     (case versionedLCFinalityUpdateFromJSON K (consensusVersion res) (body res) of
        Inl err \<Rightarrow> Inl err
      | Inr response \<Rightarrow> Inr response)"

definition LightClientFinalityUpdate ::
  "('b, 'hd, 'm, 'x, 'y, 'z) fork_codecs \<Rightarrow> error + ('b, 'hd) httpResponse option \<Rightarrow>
   error + (('x, 'y, 'z) Versioned, 'm) Response option" where
  "LightClientFinalityUpdate K got =
     (case got of
        Inl err \<Rightarrow> Inl (errors_Wrap err ''failed to request beacon light client finality_update'')
      | Inr None \<Rightarrow> Inr None
      | Inr (Some resp) \<Rightarrow>
          (case contentType resp of
             ContentTypeSSZ \<Rightarrow>
               (case lightClientFinalityUpdateFromSSZ K resp of Inl err \<Rightarrow> Inl err | Inr r \<Rightarrow> Inr (Some r))
           | ContentTypeJSON \<Rightarrow>
               (case lightClientFinalityUpdateFromJSON K resp of Inl err \<Rightarrow> Inl err | Inr r \<Rightarrow> Inr (Some r))
           | ContentTypeOther n \<Rightarrow>
               Inl (fmt_Errorf_contentType ''unhandled content type %v'' (contentType resp))))"

subsection \<open>LightClientOptimisticUpdate\<close>

definition lightClientOptimisticUpdateFromSSZ ::
  "('b, 'hd, 'm, 'x, 'y, 'z) fork_codecs \<Rightarrow> ('b, 'hd) httpResponse \<Rightarrow>
   error + (('x, 'y, 'z) Versioned, 'm) Response" where
  "lightClientOptimisticUpdateFromSSZ K res =
     (let data = \<lparr>Version = consensusVersion res, Altair = None, Bellatrix = None,
                  Capella = None, Deneb = None\<rparr>;
          decoded =
            (case consensusVersion res of
               DataVersionPhase0 \<Rightarrow>
                 Inl (fmt_Errorf_version ''unsupported version %s'' (consensusVersion res))
             | DataVersionAltair \<Rightarrow>
                 (case UnmarshalSSZ_altair K (body res) of
                    Inl err \<Rightarrow> Inl err
                  | Inr x \<Rightarrow> Inr (data\<lparr>Altair := Some x\<rparr>))
             | DataVersionBellatrix \<Rightarrow>
                 (case UnmarshalSSZ_altair K (body res) of
                    Inl err \<Rightarrow> Inl err
                  | Inr x \<Rightarrow> Inr (data\<lparr>Bellatrix := Some x\<rparr>))
             | DataVersionCapella \<Rightarrow>
                 (case UnmarshalSSZ_capella K (body res) of
                    Inl err \<Rightarrow> Inl err
                  | Inr y \<Rightarrow> Inr (data\<lparr>Capella := Some y\<rparr>))
             | DataVersionDeneb \<Rightarrow>
                 (case UnmarshalSSZ_deneb K (body res) of
                    Inl err \<Rightarrow> Inl err
                  | Inr z \<Rightarrow> Inr (data\<lparr>Deneb := Some z\<rparr>))
             | DataVersionOther n \<Rightarrow>
                 Inl (fmt_Errorf_version ''unsupported version %s'' (consensusVersion res)))
      in case decoded of
           Inl err \<Rightarrow>
             Inl (errors_Wrapf err ''failed to decode %s light client optimistic update''
                    (consensusVersion res))
         | Inr d \<Rightarrow> Inr \<lparr>Data = d, Metadata = metadataFromHeaders K (headers res)\<rparr>)"

definition versionedLCOptimisticUpdateFromJSON ::
  "('b, 'hd, 'm, 'x, 'y, 'z) fork_codecs \<Rightarrow> DataVersion \<Rightarrow> 'b \<Rightarrow>
   error + (('x, 'y, 'z) Versioned, 'm) Response" where
  "versionedLCOptimisticUpdateFromJSON K version data =
     (let update = \<lparr>Version = version, Altair = None, Bellatrix = None,
                    Capella = None, Deneb = None\<rparr>
      in case version of
           DataVersionPhase0 \<Rightarrow> Inl (fmt_Errorf_version ''unsupported version %s'' (version))
         | DataVersionAltair \<Rightarrow>
             (case decodeJSONResponse_altair K (data) of
                Inl err \<Rightarrow> Inl err
              | Inr (x, metadata) \<Rightarrow> Inr \<lparr>Data = update\<lparr>Altair := x\<rparr>, Metadata = metadata\<rparr>)
         | DataVersionBellatrix \<Rightarrow>
             (case decodeJSONResponse_altair K (data) of
                Inl err \<Rightarrow> Inl err
              | Inr (x, metadata) \<Rightarrow> Inr \<lparr>Data = update\<lparr>Bellatrix := x\<rparr>, Metadata = metadata\<rparr>)
         | DataVersionCapella \<Rightarrow>
             (case decodeJSONResponse_capella K (data) of
                Inl err \<Rightarrow> Inl err
              | Inr (y, metadata) \<Rightarrow> Inr \<lparr>Data = update\<lparr>Capella := y\<rparr>, Metadata = metadata\<rparr>)
         | DataVersionDeneb \<Rightarrow>
             (case decodeJSONResponse_deneb K (data) of
                Inl err \<Rightarrow> Inl err
              | Inr (z, metadata) \<Rightarrow> Inr \<lparr>Data = update\<lparr>Deneb := z\<rparr>, Metadata = metadata\<rparr>)
         | DataVersionOther n \<Rightarrow> Inl (fmt_Errorf_version ''unsupported version %s'' (version)))"

definition lightClientOptimisticUpdateFromJSON ::
  "('b, 'hd, 'm, 'x, 'y, 'z) fork_codecs \<Rightarrow> ('b, 'hd) httpResponse \<Rightarrow>
   error + (('x, 'y, 'z) Versioned, 'm) Response" where
  "lightClientOptimisticUpdateFromJSON K res =
     (case versionedLCOptimisticUpdateFromJSON K (consensusVersion res) (body res) of
        Inl err \<Rightarrow> Inl err
      | Inr response \<Rightarrow> Inr response)"

definition LightClientOptimisticUpdate ::
  "('b, 'hd, 'm, 'x, 'y, 'z) fork_codecs \<Rightarrow> error + ('b, 'hd) httpResponse option \<Rightarrow>
   error + (('x, 'y, 'z) Versioned, 'm) Response option" where
  "LightClientOptimisticUpdate K got =
     (case got of
        Inl err \<Rightarrow> Inl (errors_Wrap err ''failed to request beacon light client optimistic_update'')
      | Inr None \<Rightarrow> Inr None
      | Inr (Some resp) \<Rightarrow>
          (case contentType resp of
             ContentTypeSSZ \<Rightarrow>
               (case lightClientOptimisticUpdateFromSSZ K resp of Inl err \<Rightarrow> Inl err | Inr r \<Rightarrow> Inr (Some r))
           | ContentTypeJSON \<Rightarrow>
               (case lightClientOptimisticUpdateFromJSON K resp of Inl err \<Rightarrow> Inl err | Inr r \<Rightarrow> Inr (Some r))
           | ContentTypeOther n \<Rightarrow>
               Inl (fmt_Errorf_contentType ''unhandled content type %v'' (contentType resp))))"

subsection \<open>LightClientUpdates\<close>

text \<open>
  The updates are decoded by hand. The parameters (\<open>updates_codecs\<close>) are the JSON value the
  body holds, as \<^verbatim>\<open>json.NewDecoder(...).Decode\<close> reads it, or its error; \<^verbatim>\<open>json.Unmarshal\<close>
  into a new \<^verbatim>\<open>LightClientUpdate\<close> of the Altair, Capella and Deneb shape; and the metadata
  map built from the version.
  \<^verbatim>\<open>Decode\<close> into a \<^verbatim>\<open>map[string]json.RawMessage\<close> keeps the last value of a repeated
  name; \<^verbatim>\<open>null\<close> leaves the map nil. Only the member named exactly \<^verbatim>\<open>data\<close> is read:
  an array gives its elements, \<^verbatim>\<open>null\<close> gives no element.
\<close>

record ('b, 'm, 'x, 'y, 'z) updates_codecs =
  json_Decode :: "'b \<Rightarrow> error + json"
  json_Unmarshal_altair :: "json \<Rightarrow> error + 'x"
  json_Unmarshal_capella :: "json \<Rightarrow> error + 'y"
  json_Unmarshal_deneb :: "json \<Rightarrow> error + 'z"
  version_metadata :: "DataVersion \<Rightarrow> 'm"

definition decode_raw_map :: "json \<Rightarrow> error + (string \<times> json) list" where
  "decode_raw_map j =
     (case j of
        JNull \<Rightarrow> Inr []
      | JObject kvs \<Rightarrow> Inr kvs
      | _ \<Rightarrow> Inl (UnmarshalTypeError (json_kind j) [] [] ''map[string]json.RawMessage''))"

definition decode_raw_list :: "json \<Rightarrow> error + json list" where
  "decode_raw_list j =
     (case j of
        JNull \<Rightarrow> Inr []
      | JArray xs \<Rightarrow> Inr xs
      | _ \<Rightarrow> Inl (UnmarshalTypeError (json_kind j) [] [] ''[]json.RawMessage''))"

text \<open>
  The body of the loop over the updates decodes one element into a new envelope; the loop
  appends it, and the first element that fails ends the call.
\<close>

definition decode_update ::
  "('b, 'm, 'x, 'y, 'z) updates_codecs \<Rightarrow> DataVersion \<Rightarrow> json \<Rightarrow>
   error + ('x, 'y, 'z) Versioned" where
  "decode_update U version u =
     (let d = \<lparr>Version = version, Altair = None, Bellatrix = None, Capella = None, Deneb = None\<rparr>
      in case version of
           DataVersionPhase0 \<Rightarrow> Inl (fmt_Errorf_version ''unsupported version %s'' version)
         | DataVersionAltair \<Rightarrow>
             (case json_Unmarshal_altair U u of
                Inl err \<Rightarrow> Inl err
              | Inr update \<Rightarrow> Inr (d\<lparr>Altair := Some update\<rparr>))
         | DataVersionBellatrix \<Rightarrow>
             (case json_Unmarshal_altair U u of
                Inl err \<Rightarrow> Inl err
              | Inr update \<Rightarrow> Inr (d\<lparr>Bellatrix := Some update\<rparr>))
         | DataVersionCapella \<Rightarrow>
             (case json_Unmarshal_capella U u of
                Inl err \<Rightarrow> Inl err
              | Inr update \<Rightarrow> Inr (d\<lparr>Capella := Some update\<rparr>))
         | DataVersionDeneb \<Rightarrow>
             (case json_Unmarshal_deneb U u of
                Inl err \<Rightarrow> Inl err
              | Inr update \<Rightarrow> Inr (d\<lparr>Deneb := Some update\<rparr>))
         | DataVersionOther n \<Rightarrow> Inl (fmt_Errorf_version ''unsupported version %s'' version))"

fun decode_updates ::
  "('b, 'm, 'x, 'y, 'z) updates_codecs \<Rightarrow> DataVersion \<Rightarrow> json list \<Rightarrow>
   ('x, 'y, 'z) Versioned list \<Rightarrow> error + ('x, 'y, 'z) Versioned list" where
  "decode_updates U version [] datas = Inr datas"
| "decode_updates U version (u # us) datas =
     (case decode_update U version u of
        Inl err \<Rightarrow> Inl err
      | Inr d \<Rightarrow> decode_updates U version us (datas @ [d]))"

definition lightClientUpdatesFromJSON ::
  "('b, 'm, 'x, 'y, 'z) updates_codecs \<Rightarrow> ('b, 'hd) httpResponse \<Rightarrow>
   error + (('x, 'y, 'z) Versioned list, 'm) Response" where
  "lightClientUpdatesFromJSON U res =
     (case json_Decode U (body res) of
        Inl err \<Rightarrow> Inl (errors_Wrap err ''failed to parse JSON'')
      | Inr j \<Rightarrow>
          (case decode_raw_map j of
             Inl err \<Rightarrow> Inl (errors_Wrap err ''failed to parse JSON'')
           | Inr decoded \<Rightarrow>
               (case (case map_of (rev decoded) ''data'' of
                        None \<Rightarrow> Inr []
                      | Some v \<Rightarrow> decode_raw_list v) of
                  Inl err \<Rightarrow> Inl (errors_Wrap err ''failed to parse JSON'')
                | Inr updates \<Rightarrow>
                    (case decode_updates U (consensusVersion res) updates [] of
                       Inl err \<Rightarrow> Inl err
                     | Inr datas \<Rightarrow>
                         Inr \<lparr>Data = datas,
                              Metadata = version_metadata U (consensusVersion res)\<rparr>))))"

definition LightClientUpdates ::
  "('b, 'm, 'x, 'y, 'z) updates_codecs \<Rightarrow> error + ('b, 'hd) httpResponse option \<Rightarrow>
   error + (('x, 'y, 'z) Versioned list, 'm) Response option" where
  "LightClientUpdates U got =
     (case got of
        Inl err \<Rightarrow> Inl (errors_Wrap err ''failed to request beacon light client updates'')
      | Inr None \<Rightarrow> Inr None
      | Inr (Some resp) \<Rightarrow>
          (case contentType resp of
             ContentTypeJSON \<Rightarrow>
               (case lightClientUpdatesFromJSON U resp of
                  Inl err \<Rightarrow> Inl err
                | Inr r \<Rightarrow> Inr (Some r))
           | _ \<Rightarrow> Inl (fmt_Errorf_contentType ''unhandled content type %v'' (contentType resp))))"

section \<open>The multi-client service (multi/lightclient.go)\<close>

text \<open>
  \<^verbatim>\<open>doCall\<close> is declared outside the files at hand and is a parameter: it is given the
  closure to run against a client and returns an \<^verbatim>\<open>interface{}\<close> and an error. An
  interface value is nil (\<open>None\<close>) or holds a value of some dynamic type, which may itself
  be a nil pointer or a nil slice. The closure asserts that the client is a
  \<^verbatim>\<open>LightClientProvider\<close> and the service asserts the type of the result; a failed
  assertion panics.
\<close>

datatype 'r outcome = Returns 'r | Panics

datatype ('bo, 'up, 'fi, 'op) dyn =
    Dyn_LightClientBootstrap "'bo option"
  | Dyn_LightClientUpdates "'up list option"
  | Dyn_LightClientFinalityUpdate "'fi option"
  | Dyn_LightClientOptimisticUpdate "'op option"

type_synonym ('cl, 'bo, 'up, 'fi, 'op) doCall =
  "('cl \<Rightarrow> (error + ('bo, 'up, 'fi, 'op) dyn option) outcome) \<Rightarrow>
   (error + ('bo, 'up, 'fi, 'op) dyn option) outcome"

text \<open>
  The closure handed to \<^verbatim>\<open>doCall\<close>: \<open>provider\<close> is the client's method behind the
  assertion, and a result without error is returned as an interface value.
\<close>

definition call_closure ::
  "('cl \<Rightarrow> (error + 'r) outcome) \<Rightarrow> ('r \<Rightarrow> ('bo, 'up, 'fi, 'op) dyn) \<Rightarrow> 'cl \<Rightarrow>
   (error + ('bo, 'up, 'fi, 'op) dyn option) outcome" where
  "call_closure provider wrap client =
     (case provider client of
        Panics \<Rightarrow> Panics
      | Returns (Inl err) \<Rightarrow> Returns (Inl err)
      | Returns (Inr r) \<Rightarrow> Returns (Inr (Some (wrap r))))"

definition multi_LightClientBootstrap ::
  "('cl, 'bo, 'up, 'fi, 'op) doCall \<Rightarrow> ('cl \<Rightarrow> (error + 'bo option) outcome) \<Rightarrow>
   (error + 'bo option) outcome" where
  "multi_LightClientBootstrap doCall provider =
     (case doCall (call_closure provider Dyn_LightClientBootstrap) of
        Panics \<Rightarrow> Panics
      | Returns (Inl err) \<Rightarrow> Returns (Inl err)
      | Returns (Inr None) \<Rightarrow> Returns (Inr None)
      | Returns (Inr (Some res)) \<Rightarrow>
          (case res of Dyn_LightClientBootstrap p \<Rightarrow> Returns (Inr p) | _ \<Rightarrow> Panics))"

definition multi_LightClientUpdates ::
  "('cl, 'bo, 'up, 'fi, 'op) doCall \<Rightarrow> ('cl \<Rightarrow> (error + 'up list option) outcome) \<Rightarrow>
   (error + 'up list option) outcome" where
  "multi_LightClientUpdates doCall provider =
     (case doCall (call_closure provider Dyn_LightClientUpdates) of
        Panics \<Rightarrow> Panics
      | Returns (Inl err) \<Rightarrow> Returns (Inl err)
      | Returns (Inr None) \<Rightarrow> Returns (Inr None)
      | Returns (Inr (Some res)) \<Rightarrow>
          (case res of Dyn_LightClientUpdates p \<Rightarrow> Returns (Inr p) | _ \<Rightarrow> Panics))"

definition multi_LightClientFinalityUpdate ::
  "('cl, 'bo, 'up, 'fi, 'op) doCall \<Rightarrow> ('cl \<Rightarrow> (error + 'fi option) outcome) \<Rightarrow>
   (error + 'fi option) outcome" where
  "multi_LightClientFinalityUpdate doCall provider =
     (case doCall (call_closure provider Dyn_LightClientFinalityUpdate) of
        Panics \<Rightarrow> Panics
      | Returns (Inl err) \<Rightarrow> Returns (Inl err)
      | Returns (Inr None) \<Rightarrow> Returns (Inr None)
      | Returns (Inr (Some res)) \<Rightarrow>
          (case res of Dyn_LightClientFinalityUpdate p \<Rightarrow> Returns (Inr p) | _ \<Rightarrow> Panics))"

definition multi_LightClientOptimisticUpdate ::
  "('cl, 'bo, 'up, 'fi, 'op) doCall \<Rightarrow> ('cl \<Rightarrow> (error + 'op option) outcome) \<Rightarrow>
   (error + 'op option) outcome" where
  "multi_LightClientOptimisticUpdate doCall provider =
     (case doCall (call_closure provider Dyn_LightClientOptimisticUpdate) of
        Panics \<Rightarrow> Panics
      | Returns (Inl err) \<Rightarrow> Returns (Inl err)
      | Returns (Inr None) \<Rightarrow> Returns (Inr None)
      | Returns (Inr (Some res)) \<Rightarrow>
          (case res of Dyn_LightClientOptimisticUpdate p \<Rightarrow> Returns (Inr p) | _ \<Rightarrow> Panics))"

section \<open>Notions used to state the properties\<close>






subsection \<open>Instances of the parameters, for evaluating the codecs at concrete inputs\<close>

text \<open>
  An external sub-record stands as a JSON string; the decoders of the HTTP service read a
  body that is the record itself; the updates are decoded with \<^verbatim>\<open>v1.LightClientUpdate\<close>,
  the update record among the files at hand.
\<close>

definition example_unmarshal :: "json \<Rightarrow> error + string" where
  "example_unmarshal j =
     (case j of JString s \<Rightarrow> Inr s | _ \<Rightarrow> Inl (errors_New ''not a string''))"

definition example_marshal :: "string \<Rightarrow> error + json" where
  "example_marshal s = Inr (JString s)"

definition example_external :: "(string, string, string, string) external" where
  "example_external =
     \<lparr>BeaconBlockHeader_UnmarshalJSON = example_unmarshal,
      BeaconBlockHeader_MarshalJSON = example_marshal,
      SyncCommittee_UnmarshalJSON = example_unmarshal,
      SyncCommittee_MarshalJSON = example_marshal,
      SyncAggregate_UnmarshalJSON = example_unmarshal,
      SyncAggregate_MarshalJSON = example_marshal,
      ExecutionPayloadHeader_UnmarshalJSON = example_unmarshal,
      ExecutionPayloadHeader_MarshalJSON = example_marshal\<rparr>"



type_synonym example_update = "(string, string, string) v1_LightClientUpdate"

definition example_updates_codecs ::
  "(json, unit, example_update, example_update, example_update) updates_codecs" where
  "example_updates_codecs =
     \<lparr>json_Decode = Inr,
      json_Unmarshal_altair =
        fresh (v1_LightClientUpdate_UnmarshalJSON example_external) v1_LightClientUpdate_zero,
      json_Unmarshal_capella =
        fresh (v1_LightClientUpdate_UnmarshalJSON example_external) v1_LightClientUpdate_zero,
      json_Unmarshal_deneb =
        fresh (v1_LightClientUpdate_UnmarshalJSON example_external) v1_LightClientUpdate_zero,
      version_metadata = (\<lambda>v. ())\<rparr>"


definition example_root_bytes :: "byte list" where
  "example_root_bytes =
     [0x01, 0x23, 0x45, 0x67, 0x89, 0xab, 0xcd, 0xef, 0x01, 0x23, 0x45, 0x67, 0x89, 0xab, 0xcd, 0xef,
      0x01, 0x23, 0x45, 0x67, 0x89, 0xab, 0xcd, 0xef, 0x01, 0x23, 0x45, 0x67, 0x89, 0xab, 0xcd, 0xef]"


definition example_update :: "nat \<Rightarrow> example_update" where
  "example_update n =
     \<lparr>U_AttestedHeader = Some ''attested'', U_NextSyncCommittee = Some ''committee'',
      U_NextSyncCommitteeBranch = replicate 5 example_root_bytes,
      U_FinalizedHeader = Some ''finalized'',
      U_FinalityBranch = replicate n example_root_bytes,
      U_SyncAggregate = Some ''aggregate'', U_SignatureSlot = 1\<rparr>"

text \<open>A \<^verbatim>\<open>doCall\<close> that runs the closure against one client and passes its result on.\<close>

definition example_doCall :: "(nat, nat, nat, nat, nat) doCall" where
  "example_doCall closure = closure 0"

section \<open>Properties of the library routines\<close>

lemma hextable_digits: "list_all (\<lambda>n. fromHexChar (hextable ! n) = Some n) [0..<16]"
  by code_simp

lemma fromHexChar_hextable: "n < 16 \<Longrightarrow> fromHexChar (hextable ! n) = Some n"
  using hextable_digits by (simp add: list_all_iff)

lemma byte_div_16: "unat (b::byte) div 16 < 16"
  using unsigned_less[of b, where 'a=nat] by simp

lemma hex_DecodeString_hex_digits: "hex_DecodeString (hex_digits bs) = (bs, None)"
  by (induction bs) (simp_all add: fromHexChar_hextable byte_div_16)

lemma TrimPrefix_fmt_sharp_x:
  "bs \<noteq> [] \<Longrightarrow> strings_TrimPrefix (fmt_sharp_x bs) ''0x'' = hex_digits bs"
  by (simp add: fmt_sharp_x_def strings_TrimPrefix_def)

lemma fmt_sharp_x_nonempty: "bs \<noteq> [] \<Longrightarrow> fmt_sharp_x bs \<noteq> []"
  by (simp add: fmt_sharp_x_def)

lemma decimal_digits: "list_all (\<lambda>n. digit_of (''0123456789'' ! n) = Some n) [0..<10]"
  by code_simp

lemma digit_of_digit: "n < 10 \<Longrightarrow> digit_of (''0123456789'' ! n) = Some n"
  using decimal_digits by (simp add: list_all_iff)

lemma ParseUint_loop_append:
  "ParseUint_loop s0 n (xs @ ys) =
     (case ParseUint_loop s0 n xs of Inl e \<Rightarrow> Inl e | Inr m \<Rightarrow> ParseUint_loop s0 m ys)"
  by (induction xs arbitrary: n) (simp_all split: option.splits)

lemma ParseUint_loop_fmt_d:
  "n \<le> maxUint64 \<Longrightarrow> ParseUint_loop s0 0 (fmt_d n) = Inr n"
proof (induction n rule: fmt_d.induct)
  case (1 n)
  show ?case
  proof (cases "n < 10")
    case True
    then show ?thesis using 1(2)
      by (subst fmt_d.simps) (simp add: digit_of_digit maxUint64_def)
  next
    case False
    have le: "n div 10 \<le> maxUint64" using 1(2) by simp
    have ih: "ParseUint_loop s0 0 (fmt_d (n div 10)) = Inr (n div 10)"
      using 1(1)[OF False le] .
    have d: "n mod 10 < 10" by simp
    have c: "\<not> n div 10 \<ge> maxUint64 div 10 + 1" using 1(2) by (simp add: maxUint64_def)
    have e: "n div 10 * 10 + n mod 10 = n" by simp
    show ?thesis
      using False c 1(2)
      by (subst fmt_d.simps) (simp add: ParseUint_loop_append ih digit_of_digit[OF d] e)
  qed
qed

lemma fmt_d_nonempty: "fmt_d n \<noteq> []"
  by (subst fmt_d.simps) simp

lemma strconv_ParseUint_fmt_d: "n \<le> maxUint64 \<Longrightarrow> strconv_ParseUint (fmt_d n) = Inr n"
  by (simp add: strconv_ParseUint_def fmt_d_nonempty ParseUint_loop_fmt_d)

lemma unat_le_maxUint64: "unat (w :: 64 word) \<le> maxUint64"
  using unsigned_less[of w, where 'a=nat] by (simp add: maxUint64_def)

lemma slot_roundtrip: "strconv_ParseUint (fmt_d (unat (w :: 64 word))) = Inr (unat w)"
  by (simp add: strconv_ParseUint_fmt_d unat_le_maxUint64)

subsection \<open>The example inputs\<close>











section \<open>Properties of the HTTP service and of the multi-client service\<close>

lemmas ops_defs =
  LightClientBootstrap_def LightClientFinalityUpdate_def LightClientOptimisticUpdate_def
  LightClientUpdates_def

lemmas ssz_defs =
  lightClientBootstrapFromSSZ_def lightClientFinalityUpdateFromSSZ_def
  lightClientOptimisticUpdateFromSSZ_def

lemmas json_defs =
  lightClientBootstrapFromJSON_def lightClientFinalityUpdateFromJSON_def
  lightClientOptimisticUpdateFromJSON_def versionedLCFinalityUpdateFromJSON_def
  versionedLCOptimisticUpdateFromJSON_def

lemmas multi_defs =
  multi_LightClientBootstrap_def multi_LightClientUpdates_def
  multi_LightClientFinalityUpdate_def multi_LightClientOptimisticUpdate_def

text \<open>
  C9. No data is not an error. When \<^verbatim>\<open>get\<close> returns no response and no error, each of the
  four operations of the HTTP service returns nil and no error. In the multi-client
  service, when \<^verbatim>\<open>doCall\<close> returns no error and a result that is nil, be it the nil
  interface or an interface holding the nil pointer (nil slice) the closure wrapped, each
  of the four operations returns nil and no error.
\<close>

theorem no_data_is_not_an_error:
  "LightClientBootstrap KB (Inr None) = Inr None \<and>
   LightClientUpdates U (Inr None) = Inr None \<and>
   LightClientFinalityUpdate KF (Inr None) = Inr None \<and>
   LightClientOptimisticUpdate KO (Inr None) = Inr None \<and>
   (\<forall>r. doCall (call_closure pb Dyn_LightClientBootstrap) = Returns (Inr r) \<and>
        (r = None \<or> r = Some (Dyn_LightClientBootstrap None)) \<longrightarrow>
        multi_LightClientBootstrap doCall pb = Returns (Inr None)) \<and>
   (\<forall>r. doCall (call_closure pu Dyn_LightClientUpdates) = Returns (Inr r) \<and>
        (r = None \<or> r = Some (Dyn_LightClientUpdates None)) \<longrightarrow>
        multi_LightClientUpdates doCall pu = Returns (Inr None)) \<and>
   (\<forall>r. doCall (call_closure pf Dyn_LightClientFinalityUpdate) = Returns (Inr r) \<and>
        (r = None \<or> r = Some (Dyn_LightClientFinalityUpdate None)) \<longrightarrow>
        multi_LightClientFinalityUpdate doCall pf = Returns (Inr None)) \<and>
   (\<forall>r. doCall (call_closure po Dyn_LightClientOptimisticUpdate) = Returns (Inr r) \<and>
        (r = None \<or> r = Some (Dyn_LightClientOptimisticUpdate None)) \<longrightarrow>
        multi_LightClientOptimisticUpdate doCall po = Returns (Inr None))"
  by (auto simp: ops_defs multi_defs)

text \<open>
  Witness: every client reports no data; \<^verbatim>\<open>doCall\<close> passes the closure's result on, an
  interface holding a nil pointer, and the service returns nil and no error.
\<close>

theorem no_data_is_not_an_error_witness:
  "example_doCall (call_closure (\<lambda>client. Returns (Inr None)) Dyn_LightClientOptimisticUpdate)
     = Returns (Inr (Some (Dyn_LightClientOptimisticUpdate None))) \<and>
   multi_LightClientOptimisticUpdate example_doCall (\<lambda>client. Returns (Inr None))
     = Returns (Inr None) \<and>
   example_doCall (call_closure (\<lambda>client. Returns (Inr None)) Dyn_LightClientUpdates)
     = Returns (Inr (Some (Dyn_LightClientUpdates None))) \<and>
   multi_LightClientUpdates example_doCall (\<lambda>client. Returns (Inr None))
     = Returns (Inr None)"
proof -
  let ?po = "\<lambda>client::nat. Returns (Inr None) :: (error + nat option) outcome"
  let ?pu = "\<lambda>client::nat. Returns (Inr None) :: (error + nat list option) outcome"
  have o: "example_doCall (call_closure ?po Dyn_LightClientOptimisticUpdate)
      = Returns (Inr (Some (Dyn_LightClientOptimisticUpdate None)))"
    by (simp add: example_doCall_def call_closure_def)
  have u: "example_doCall (call_closure ?pu Dyn_LightClientUpdates)
      = Returns (Inr (Some (Dyn_LightClientUpdates None)))"
    by (simp add: example_doCall_def call_closure_def)
  from no_data_is_not_an_error [where doCall = example_doCall and po = ?po and pu = ?pu]
  show ?thesis using o u by blast
qed

subsection \<open>The loop over the updates\<close>


lemma decode_updates_fails:
  "i < length us \<Longrightarrow> decode_update U v (us ! i) = Inl e \<Longrightarrow>
   \<exists>e'. decode_updates U v us datas = Inl e'"
proof (induction us arbitrary: datas i)
  case Nil
  then show ?case by simp
next
  case (Cons u us)
  show ?case
  proof (cases "decode_update U v u")
    case (Inl a)
    then show ?thesis by simp
  next
    case (Inr d)
    with Cons.prems obtain j where "i = Suc j" "j < length us" "decode_update U v (us ! j) = Inl e"
      by (cases i) auto
    from Cons.IH[OF this(2,3)] show ?thesis using Inr by simp
  qed
qed




lemma decode_update_phase0:
  "decode_update U DataVersionPhase0 u =
     Inl (fmt_Errorf_version ''unsupported version %s'' DataVersionPhase0)"
  by (simp add: decode_update_def)

lemma updates_from_json_data:
  "json_Decode U (body res) = Inr (JObject kvs) \<Longrightarrow>
   map_of (rev kvs) ''data'' = Some (JArray us) \<Longrightarrow>
   lightClientUpdatesFromJSON U res =
     (case decode_updates U (consensusVersion res) us [] of
        Inl err \<Rightarrow> Inl err
      | Inr datas \<Rightarrow> Inr \<lparr>Data = datas, Metadata = version_metadata U (consensusVersion res)\<rparr>)"
  by (simp add: lightClientUpdatesFromJSON_def decode_raw_map_def decode_raw_list_def)

subsection \<open>Content negotiation\<close>

text \<open>
  C8, as the code has it. Bootstrap, finality update and optimistic update branch on the
  content type of the response: SSZ goes to the binary decoder of the operation, JSON to
  its textual decoder, and any other content type fails with the unhandled-content-type
  error. \<^verbatim>\<open>LightClientUpdates\<close> has a textual decoder only: JSON goes to it, and SSZ, like
  any other content type, fails with the unhandled-content-type error.
\<close>

theorem content_type_dispatch:
  "LightClientBootstrap KB (Inr (Some (rb\<lparr>contentType := ContentTypeSSZ\<rparr>))) =
     map_sum id Some (lightClientBootstrapFromSSZ KB (rb\<lparr>contentType := ContentTypeSSZ\<rparr>)) \<and>
   LightClientBootstrap KB (Inr (Some (rb\<lparr>contentType := ContentTypeJSON\<rparr>))) =
     map_sum id Some (lightClientBootstrapFromJSON KB (rb\<lparr>contentType := ContentTypeJSON\<rparr>)) \<and>
   LightClientBootstrap KB (Inr (Some (rb\<lparr>contentType := ContentTypeOther n\<rparr>))) =
     Inl (fmt_Errorf_contentType ''unhandled content type %v'' (ContentTypeOther n)) \<and>
   LightClientFinalityUpdate KF (Inr (Some (rf\<lparr>contentType := ContentTypeSSZ\<rparr>))) =
     map_sum id Some (lightClientFinalityUpdateFromSSZ KF (rf\<lparr>contentType := ContentTypeSSZ\<rparr>)) \<and>
   LightClientFinalityUpdate KF (Inr (Some (rf\<lparr>contentType := ContentTypeJSON\<rparr>))) =
     map_sum id Some (lightClientFinalityUpdateFromJSON KF (rf\<lparr>contentType := ContentTypeJSON\<rparr>)) \<and>
   LightClientFinalityUpdate KF (Inr (Some (rf\<lparr>contentType := ContentTypeOther n\<rparr>))) =
     Inl (fmt_Errorf_contentType ''unhandled content type %v'' (ContentTypeOther n)) \<and>
   LightClientOptimisticUpdate KO (Inr (Some (ro\<lparr>contentType := ContentTypeSSZ\<rparr>))) =
     map_sum id Some (lightClientOptimisticUpdateFromSSZ KO (ro\<lparr>contentType := ContentTypeSSZ\<rparr>)) \<and>
   LightClientOptimisticUpdate KO (Inr (Some (ro\<lparr>contentType := ContentTypeJSON\<rparr>))) =
     map_sum id Some (lightClientOptimisticUpdateFromJSON KO (ro\<lparr>contentType := ContentTypeJSON\<rparr>)) \<and>
   LightClientOptimisticUpdate KO (Inr (Some (ro\<lparr>contentType := ContentTypeOther n\<rparr>))) =
     Inl (fmt_Errorf_contentType ''unhandled content type %v'' (ContentTypeOther n)) \<and>
   LightClientUpdates U (Inr (Some (ru\<lparr>contentType := ContentTypeJSON\<rparr>))) =
     map_sum id Some (lightClientUpdatesFromJSON U (ru\<lparr>contentType := ContentTypeJSON\<rparr>)) \<and>
   LightClientUpdates U (Inr (Some (ru\<lparr>contentType := ContentTypeSSZ\<rparr>))) =
     Inl (fmt_Errorf_contentType ''unhandled content type %v'' ContentTypeSSZ) \<and>
   LightClientUpdates U (Inr (Some (ru\<lparr>contentType := ContentTypeOther n\<rparr>))) =
     Inl (fmt_Errorf_contentType ''unhandled content type %v'' (ContentTypeOther n))"
  by (simp add: ops_defs split: sum.splits)

text \<open>
  The claim as stated fails for the updates: a response declared SSZ is not decoded by a
  binary codec, it is refused.
\<close>

theorem updates_ssz_counterexample:
  "LightClientUpdates example_updates_codecs
     (Inr (Some \<lparr>contentType = ContentTypeSSZ, consensusVersion = DataVersionAltair,
                 headers = (), body = JNull\<rparr>))
   = Inl (fmt_Errorf_contentType ''unhandled content type %v'' ContentTypeSSZ)"
  by (simp add: LightClientUpdates_def)

subsection \<open>Fork gating\<close>

text \<open>
  C3, as the code has it. For bootstrap, finality update and optimistic update, a response
  tagged phase0 fails with the unsupported-version error carrying the version, whatever
  its body, for SSZ (where the error is wrapped by the decoder) and for JSON. For the
  updates, a JSON response tagged phase0 whose \<^verbatim>\<open>data\<close> array has at least one element
  fails with that error, and an SSZ response fails with the unhandled-content-type error.
\<close>

theorem phase0_is_rejected:
  "LightClientBootstrap KB
     (Inr (Some (rb\<lparr>contentType := ContentTypeSSZ, consensusVersion := DataVersionPhase0\<rparr>))) =
     Inl (errors_Wrapf (fmt_Errorf_version ''unsupported version %s'' DataVersionPhase0)
            ''failed to decode %s light client optimistic update'' DataVersionPhase0) \<and>
   LightClientBootstrap KB
     (Inr (Some (rb\<lparr>contentType := ContentTypeJSON, consensusVersion := DataVersionPhase0\<rparr>))) =
     Inl (fmt_Errorf_version ''unsupported version %s'' DataVersionPhase0) \<and>
   LightClientFinalityUpdate KF
     (Inr (Some (rf\<lparr>contentType := ContentTypeSSZ, consensusVersion := DataVersionPhase0\<rparr>))) =
     Inl (errors_Wrapf (fmt_Errorf_version ''unsupported version %s'' DataVersionPhase0)
            ''failed to decode %s light client optimistic update'' DataVersionPhase0) \<and>
   LightClientFinalityUpdate KF
     (Inr (Some (rf\<lparr>contentType := ContentTypeJSON, consensusVersion := DataVersionPhase0\<rparr>))) =
     Inl (fmt_Errorf_version ''unsupported version %s'' DataVersionPhase0) \<and>
   LightClientOptimisticUpdate KO
     (Inr (Some (ro\<lparr>contentType := ContentTypeSSZ, consensusVersion := DataVersionPhase0\<rparr>))) =
     Inl (errors_Wrapf (fmt_Errorf_version ''unsupported version %s'' DataVersionPhase0)
            ''failed to decode %s light client optimistic update'' DataVersionPhase0) \<and>
   LightClientOptimisticUpdate KO
     (Inr (Some (ro\<lparr>contentType := ContentTypeJSON, consensusVersion := DataVersionPhase0\<rparr>))) =
     Inl (fmt_Errorf_version ''unsupported version %s'' DataVersionPhase0) \<and>
   (json_Decode U (body ru) = Inr (JObject kvs) \<and>
    map_of (rev kvs) ''data'' = Some (JArray (u # us)) \<longrightarrow>
    LightClientUpdates U
      (Inr (Some (ru\<lparr>contentType := ContentTypeJSON, consensusVersion := DataVersionPhase0\<rparr>))) =
      Inl (fmt_Errorf_version ''unsupported version %s'' DataVersionPhase0)) \<and>
   LightClientUpdates U
     (Inr (Some (ru\<lparr>contentType := ContentTypeSSZ, consensusVersion := DataVersionPhase0\<rparr>))) =
     Inl (fmt_Errorf_contentType ''unhandled content type %v'' ContentTypeSSZ)"
proof -
  have upd: "LightClientUpdates U
      (Inr (Some (ru\<lparr>contentType := ContentTypeJSON, consensusVersion := DataVersionPhase0\<rparr>))) =
      Inl (fmt_Errorf_version ''unsupported version %s'' DataVersionPhase0)"
    if "json_Decode U (body ru) = Inr (JObject kvs)"
      and "map_of (rev kvs) ''data'' = Some (JArray (u # us))"
    using updates_from_json_data
      [of U "ru\<lparr>contentType := ContentTypeJSON, consensusVersion := DataVersionPhase0\<rparr>"
        kvs "u # us"] that
    by (simp add: LightClientUpdates_def decode_update_phase0)
  show ?thesis
    using upd by (simp add: ops_defs ssz_defs json_defs)
qed

text \<open>Witness: a phase0 updates response with one element.\<close>

theorem phase0_is_rejected_witness:
  "json_Decode example_updates_codecs (JObject [(''data'', JArray [JNull])])
     = Inr (JObject [(''data'', JArray [JNull])]) \<and>
   map_of (rev [(''data'', JArray [JNull])]) ''data'' = Some (JArray [JNull]) \<and>
   LightClientUpdates example_updates_codecs
     (Inr (Some \<lparr>contentType = ContentTypeJSON, consensusVersion = DataVersionPhase0,
                 headers = (), body = JObject [(''data'', JArray [JNull])]\<rparr>))
     = Inl (fmt_Errorf_version ''unsupported version %s'' DataVersionPhase0)"
proof -
  have a: "json_Decode example_updates_codecs (JObject [(''data'', JArray [JNull])])
     = Inr (JObject [(''data'', JArray [JNull])])"
    by (simp add: example_updates_codecs_def)
  have b: "map_of (rev [(''data'', JArray [JNull])]) ''data'' = Some (JArray [JNull])"
    by simp
  have c: "json_Decode example_updates_codecs (JObject [(''data'', JArray [JNull])])
       = Inr (JObject [(''data'', JArray [JNull])]) \<and>
     map_of (rev [(''data'', JArray [JNull])]) ''data'' = Some (JArray [JNull]) \<longrightarrow>
     LightClientUpdates example_updates_codecs
       (Inr (Some \<lparr>contentType = ContentTypeJSON, consensusVersion = DataVersionPhase0,
                   headers = (), body = JObject [(''data'', JArray [JNull])]\<rparr>))
       = Inl (fmt_Errorf_version ''unsupported version %s'' DataVersionPhase0)"
    using phase0_is_rejected [where U = example_updates_codecs
      and ru = "\<lparr>contentType = ContentTypeJSON, consensusVersion = DataVersionPhase0,
                 headers = (), body = JObject [(''data'', JArray [JNull])]\<rparr>"
      and kvs = "[(''data'', JArray [JNull])]" and u = JNull and us = "[]",
      THEN conjunct2, THEN conjunct2, THEN conjunct2, THEN conjunct2, THEN conjunct2,
      THEN conjunct2, THEN conjunct1]
    by simp
  show ?thesis using a b c by blast
qed

text \<open>
  The claim as stated fails for the updates: tagged phase0, an SSZ response fails with
  another error, and a JSON response whose \<^verbatim>\<open>data\<close> array is empty is accepted with an
  empty list (the version is looked at once per element).
\<close>

theorem phase0_counterexample:
  "LightClientUpdates example_updates_codecs
     (Inr (Some \<lparr>contentType = ContentTypeSSZ, consensusVersion = DataVersionPhase0,
                 headers = (), body = JObject [(''data'', JArray [])]\<rparr>))
     = Inl (fmt_Errorf_contentType ''unhandled content type %v'' ContentTypeSSZ) \<and>
   LightClientUpdates example_updates_codecs
     (Inr (Some \<lparr>contentType = ContentTypeJSON, consensusVersion = DataVersionPhase0,
                 headers = (), body = JObject [(''data'', JArray [])]\<rparr>))
     = Inr (Some \<lparr>Data = [], Metadata = ()\<rparr>)"
  by (simp add: LightClientUpdates_def lightClientUpdatesFromJSON_def decode_raw_map_def
      decode_raw_list_def example_updates_codecs_def)

subsection \<open>The envelope\<close>












subsection \<open>The list of updates\<close>




end
